theory Spec2Isabelle
  imports Complex_Main
begin

section \<open>simtrans: the VRML and Collada adapters\<close>

text \<open>
  A shallow embedding of \<^verbatim>\<open>simtrans/vrml.py\<close> and \<^verbatim>\<open>simtrans/collada.py\<close>.
  Python exceptions are values of the type \<open>error\<close>; a function that may raise returns
  \<open>error + 'a\<close> with \<open>Inl\<close> for the exception. Dictionaries whose order is observed are
  association lists, the others are maps. The module \<^verbatim>\<open>model\<close> that both files import is
  not among the sources: what the code reads from it is the parameter \<open>M\<close> below.
\<close>

subsection \<open>Exceptions\<close>

text \<open>
  The first group are the exceptions the modelled code can raise: Python's own, the
  two \<^verbatim>\<open>Exception('unsupported ...')\<close> of \<^verbatim>\<open>vrml.py\<close>, and the interpreter's
  "maximum recursion depth exceeded". The last three are the error kinds that section 7
  of the specification names; no \<^verbatim>\<open>raise\<close> of the sources produces them.
\<close>

datatype error =
    KeyError
  | IndexError
  | ValueError
  | AttributeError
  | UnsupportedJointType string
  | UnsupportedShapePrimitive
  | RecursionDepthExceeded
  | StructuralError
  | CycleDetectedError
  | IndexBoundsError

subsection \<open>The canonical model, as the two files use it\<close>

record joint =
  jname :: string
  parent :: string
  child :: string
  jointType :: string
  axis :: "real list"
  limit :: "real list option"
  trans :: "real list"
  rot :: "real list"

record material =
  mname :: string
  ambient :: real
  diffuse :: "real list"
  specular :: "real list"
  emission :: "real list"
  shininess :: real
  transparency :: real

text \<open>
  A NumPy array of two dimensions is the list of its rows. \<^verbatim>\<open>MeshData\<close>: both readers
  assign \<open>vertex\<close> and \<open>vertex_index\<close> right after constructing the object; the other
  attributes keep what the constructor gave them unless a reader assigns them.
\<close>

record meshdata =
  vertex :: "real list list"
  vertex_index :: "int list list"
  normal :: "real list list option"
  normal_index :: "int list list option"
  uvmap :: "real list list option"
  uvmap_index :: "int list list option"
  image :: "string option"
  mesh_material :: "material option"

datatype shapedata =
    Mesh meshdata
  | SphereData (radius: real) (sphere_material: material)
  | CylinderData (cyl_radius: real) (height: real) (cyl_material: material)
  | BoxData (box_x: real) (box_y: real) (box_z: real) (box_material: material)

datatype shapetype = SP_MESH | SP_SPHERE | SP_CYLINDER | SP_BOX

record shape =
  sname :: string
  matrix :: "real list list"
  shapeType :: shapetype
  data :: shapedata

record link =
  lname :: string
  mass :: real
  centerofmass :: "real list"
  visuals :: "shape list"

record body =
  bname :: "string option"
  links :: "link list"
  joints :: "joint list"

text \<open>
  What the code reads from the module \<^verbatim>\<open>model\<close>: the four joint type tags of
  \<^verbatim>\<open>model.JointModel\<close> and the instances that the constructors \<^verbatim>\<open>model.JointModel()\<close>,
  \<^verbatim>\<open>model.BodyModel()\<close> and \<^verbatim>\<open>model.MeshData()\<close> return.
\<close>

record model_py =
  J_FIXED :: string
  J_REVOLUTE :: string
  J_PRISMATIC :: string
  J_SCREW :: string
  JointModel :: joint
  BodyModel :: body
  MeshData :: meshdata

subsection \<open>Loops that may raise\<close>

text \<open>
  \<^verbatim>\<open>for x in xs: ys.append(f(x))\<close>: the elements are taken in order and the first
  exception leaves the loop.
\<close>

primrec for_each :: "('a \<Rightarrow> error + 'b) \<Rightarrow> 'a list \<Rightarrow> error + 'b list" where
  "for_each f [] = Inr []"
| "for_each f (x # xs) =
     (case f x of
        Inl e \<Rightarrow> Inl e
      | Inr y \<Rightarrow> (case for_each f xs of Inl e \<Rightarrow> Inl e | Inr ys \<Rightarrow> Inr (y # ys)))"

subsection \<open>VRMLWriter\<close>

text \<open>A node of the nested tree: the dictionary \<^verbatim>\<open>nmodel\<close>, whose key 'link' may be absent.\<close>

datatype nmodel =
  NModel (n_joint: joint) (n_jointtype: string) (n_link: "link option") (n_children: "nmodel list")

record VRMLWriter =
  linkmap :: "string \<rightharpoonup> link"
  roots :: "string list"

definition VRMLWriter_init :: VRMLWriter where
  "VRMLWriter_init = \<lparr>linkmap = Map.empty, roots = []\<rparr>"

text \<open>\<^verbatim>\<open>findchildren\<close>, lines 375-390.\<close>

fun findchildren :: "body \<Rightarrow> string \<Rightarrow> joint list" where
  "findchildren mdata linkname = filter (\<lambda>j. parent j = linkname) (joints mdata)"

text \<open>\<^verbatim>\<open>convertjointtype\<close>, lines 321-331.\<close>

definition convertjointtype :: "model_py \<Rightarrow> string \<Rightarrow> error + string" where
  "convertjointtype M t =
     (if t = J_FIXED M then Inr ''fixed''
      else if t = J_REVOLUTE M then Inr ''rotate''
      else if t = J_PRISMATIC M then Inr ''slide''
      else if t = J_SCREW M then Inr ''rotate''
      else Inl (UnsupportedJointType t))"

text \<open>
  \<^verbatim>\<open>convertchildren\<close>, lines 306-319. The first argument is the number of calls that
  the interpreter's recursion limit still allows: at 0 the call raises. The lookup
  \<^verbatim>\<open>self._linkmap[cjoint.child]\<close> is inside \<^verbatim>\<open>try ... except KeyError: pass\<close>, so a
  missing link leaves the key 'link' out of the node.
\<close>

fun convertchildren :: "nat \<Rightarrow> model_py \<Rightarrow> (string \<rightharpoonup> link) \<Rightarrow> body \<Rightarrow> string \<Rightarrow> error + nmodel list" where
  "convertchildren 0 M lm mdata linkname = Inl RecursionDepthExceeded"
| "convertchildren (Suc d) M lm mdata linkname =
     for_each
       (\<lambda>cjoint.
          case convertjointtype M (jointType cjoint) of
            Inl e \<Rightarrow> Inl e
          | Inr t \<Rightarrow>
              (case convertchildren d M lm mdata (child cjoint) of
                 Inl e \<Rightarrow> Inl e
               | Inr ch \<Rightarrow> Inr (NModel cjoint t (lm (child cjoint)) ch)))
       (findchildren mdata linkname)"

text \<open>
  \<^verbatim>\<open>findroot\<close>, lines 360-373. The dictionary \<^verbatim>\<open>joints\<close> is an association list in
  insertion order; \<^verbatim>\<open>sorted(..., reverse=True)\<close> is stable. (The order of a Python 2
  dictionary is not insertion order: the theorems below are about the set of candidates and
  do not depend on the order among equal counts.)
\<close>

fun dict_incr :: "(string \<times> nat) list \<Rightarrow> string \<Rightarrow> (string \<times> nat) list" where
  "dict_incr [] k = [(k, 1)]"
| "dict_incr ((k', c) # d) k = (if k' = k then (k', c + 1) # d else (k', c) # dict_incr d k)"

fun dict_del :: "(string \<times> nat) list \<Rightarrow> string \<Rightarrow> (string \<times> nat) list" where
  "dict_del d k = filter (\<lambda>kc. fst kc \<noteq> k) d"

fun count_parents :: "(string \<times> nat) list \<Rightarrow> joint list \<Rightarrow> (string \<times> nat) list" where
  "count_parents d [] = d"
| "count_parents d (j # js) =
     (if parent j = ''world'' then count_parents d js
      else count_parents (dict_incr d (parent j)) js)"

fun del_children :: "(string \<times> nat) list \<Rightarrow> joint list \<Rightarrow> (string \<times> nat) list" where
  "del_children d [] = d"
| "del_children d (j # js) = del_children (dict_del d (child j)) js"

definition findroot :: "body \<Rightarrow> string list" where
  "findroot mdata =
     map fst (sort_key (\<lambda>kc. - int (snd kc))
                (del_children (count_parents [] (joints mdata)) (joints mdata)))"

text \<open>
  \<^verbatim>\<open>VRMLWriter.write\<close>, lines 225-255: the conversion of the edge list to the nested tree. The
  result is the writer with its fields updated and the dictionary \<^verbatim>\<open>nmodel\<close> (the only
  child of \<^verbatim>\<open>rmodel\<close>). Naming the body after the file and rendering the templates are the
  adapter's part and are not modelled. \<open>d\<close> is the depth the recursion limit allows.
\<close>

fun load_links :: "(string \<rightharpoonup> link) \<Rightarrow> link list \<Rightarrow> (string \<rightharpoonup> link)" where
  "load_links lm [] = lm"
| "load_links lm (m # ms) = load_links (lm(lname m \<mapsto> m)) ms"

definition VRMLWriter_write :: "nat \<Rightarrow> model_py \<Rightarrow> VRMLWriter \<Rightarrow> body \<Rightarrow> error + (VRMLWriter \<times> nmodel)" where
  "VRMLWriter_write d M w mdata =
     (let lm = load_links (linkmap w) (links mdata);
          rs = findroot mdata;
          w' = w\<lparr>linkmap := lm, roots := rs\<rparr>;
          sel = (case rs of
                   rootname # _ \<Rightarrow>
                     (case lm rootname of
                        None \<Rightarrow> Inl KeyError
                      | Some rootlink \<Rightarrow> Inr (rootname, rootlink))
                 | [] \<Rightarrow>
                     (case links mdata of
                        [] \<Rightarrow> Inl IndexError
                      | rootlink # _ \<Rightarrow> Inr (''waist'', rootlink)))
      in case sel of
           Inl e \<Rightarrow> Inl e
         | Inr (rootname, rootlink) \<Rightarrow>
             (let rootjoint = (JointModel M)\<lparr>jname := rootname, jointType := ''fixed''\<rparr>
              in case convertchildren d M lm mdata rootname of
                   Inl e \<Rightarrow> Inl e
                 | Inr ch \<Rightarrow> Inr (w', NModel rootjoint (jointType rootjoint) (Some rootlink) ch)))"

subsection \<open>Python and NumPy primitives\<close>

text \<open>\<^verbatim>\<open>xs[i]\<close> on a list: a negative index counts from the end, an index out of range raises.\<close>

definition py_index :: "'a list \<Rightarrow> int \<Rightarrow> error + 'a" where
  "py_index xs i =
     (let n = int (length xs); k = (if i < 0 then n + i else i)
      in if 0 \<le> k \<and> k < n then Inr (xs ! nat k) else Inl IndexError)"

text \<open>
  \<^verbatim>\<open>numpy.array(xs).reshape(r, k)\<close>: the rows of \<open>k\<close> elements in order; it raises
  ValueError unless \<open>r * k\<close> is the number of elements.
\<close>

primrec rows_of :: "nat \<Rightarrow> nat \<Rightarrow> 'a list \<Rightarrow> 'a list list" where
  "rows_of 0 k xs = []"
| "rows_of (Suc r) k xs = take k xs # rows_of r k (drop k xs)"

definition reshape :: "nat \<Rightarrow> nat \<Rightarrow> 'a list \<Rightarrow> error + 'a list list" where
  "reshape r k xs = (if r * k = length xs then Inr (rows_of r k xs) else Inl ValueError)"

text \<open>\<^verbatim>\<open>numpy.array(xs).reshape(len(xs)/3, 3)\<close>, with the integer division of Python 2.\<close>

definition reshape3 :: "'a list \<Rightarrow> error + 'a list list" where
  "reshape3 xs = reshape (length xs div 3) 3 xs"

text \<open>The size of an array, and its flattening \<^verbatim>\<open>a.reshape(1, a.size)\<close> (one row).\<close>

definition asize :: "'a list list \<Rightarrow> nat" where
  "asize a = length (concat a)"

text \<open>\<^verbatim>\<open>"%i" % n\<close>.\<close>

fun str_nat :: "nat \<Rightarrow> string" where
  "str_nat n =
     (if n < 10 then [''0123456789'' ! n]
      else str_nat (n div 10) @ [''0123456789'' ! (n mod 10)])"

definition str_int :: "int \<Rightarrow> string" where
  "str_int i = (if i < 0 then CHR ''-'' # str_nat (nat (- i)) else str_nat (nat i))"

subsection \<open>VRMLReader\<close>

text \<open>
  The structures that the OpenHRP model loader returns (\<^verbatim>\<open>BodyInfo\<close> and its parts),
  with the attributes that \<^verbatim>\<open>vrml.py\<close> reads. \<^verbatim>\<open>ExtraJointInfo.link\<close> is an array of
  exactly two link names, here a pair.
\<close>

datatype ShapePrimitiveType =
  OpenHRP_SP_MESH | OpenHRP_SP_BOX | OpenHRP_SP_CYLINDER | OpenHRP_SP_CONE
  | OpenHRP_SP_SPHERE | OpenHRP_SP_PLANE

record ShapeInfo =
  primitiveType :: ShapePrimitiveType
  vertices :: "real list"
  triangles :: "int list"
  primitiveParameters :: "real list"
  appearanceIndex :: int

record AppearanceInfo =
  materialIndex :: int
  normals :: "real list"
  normalIndices :: "int list"
  normalPerVertex :: bool

record MaterialInfo =
  ambientIntensity :: real
  diffuseColor :: "real list"
  emissiveColor :: "real list"
  hrp_shininess :: real
  specularColor :: "real list"
  hrp_transparency :: real

record TransformedShapeIndex =
  transformMatrix :: "real list"
  shapeIndex :: int

record LinkInfo =
  hrp_name :: string
  hrp_mass :: real
  centerOfMass :: "real list"
  shapeIndices :: "TransformedShapeIndex list"
  childIndices :: "int list"
  hrp_jointType :: string
  ulimit :: "real list"
  llimit :: "real list"
  jointAxis :: "real list"
  translation :: "real list"
  rotation :: "real list"

record ExtraJointInfo =
  ej_name :: string
  ej_link :: "string \<times> string"
  ej_axis :: "real list"

record BodyInfo =
  hrp_links :: "LinkInfo list"
  hrp_shapes :: "ShapeInfo list"
  hrp_appearances :: "AppearanceInfo list"
  hrp_materials :: "MaterialInfo list"
  extraJoints :: "ExtraJointInfo list"

text \<open>The attributes of the reader object.\<close>

record VRMLReader =
  r_joints :: "joint list"
  r_links :: "link list"
  r_materials :: "material list"
  hrplinks :: "LinkInfo list"
  hrpshapes :: "ShapeInfo list"
  hrpapperances :: "AppearanceInfo list"
  hrpmaterials :: "MaterialInfo list"
  hrpextrajoints :: "ExtraJointInfo list"

text \<open>
  The index list that \<^verbatim>\<open>readLink\<close> builds when none is given (lines 111-116 and
  127-132), and the one it builds from per-face indices (lines 120-125).
\<close>

definition triple_each :: "int list \<Rightarrow> int list" where
  "triple_each is = concat (map (\<lambda>i. [i, i, i]) is)"

definition range0 :: "nat \<Rightarrow> int list" where
  "range0 n = map int [0..<n]"

text \<open>Lines 106-132 of \<^verbatim>\<open>readLink\<close>: the normals and their index list.\<close>

definition read_normals :: "AppearanceInfo \<Rightarrow> error + (real list list \<times> int list list)" where
  "read_normals adata =
     (case reshape3 (normals adata) of
        Inl e \<Rightarrow> Inl e
      | Inr nrm \<Rightarrow>
          (case (if normalPerVertex adata then
                   (if length (normalIndices adata) > 0 then reshape3 (normalIndices adata)
                    else reshape3 (triple_each (range0 (length (normals adata) div 3))))
                 else
                   (if length (normalIndices adata) > 0
                    then reshape3 (triple_each (normalIndices adata))
                    else reshape3 (triple_each (range0 (length (normals adata) div 3))))) of
             Inl e \<Rightarrow> Inl e
           | Inr idx \<Rightarrow> Inr (nrm, idx)))"

text \<open>Lines 100-133 of \<^verbatim>\<open>readLink\<close>: the branch of a mesh.\<close>

definition read_mesh :: "model_py \<Rightarrow> VRMLReader \<Rightarrow> ShapeInfo \<Rightarrow> error + meshdata" where
  "read_mesh M r sdata =
     (case reshape3 (vertices sdata) of
        Inl e \<Rightarrow> Inl e
      | Inr v \<Rightarrow>
     (case reshape3 (triangles sdata) of
        Inl e \<Rightarrow> Inl e
      | Inr vi \<Rightarrow>
     (case py_index (hrpapperances r) (appearanceIndex sdata) of
        Inl e \<Rightarrow> Inl e
      | Inr adata \<Rightarrow>
     (case read_normals adata of
        Inl e \<Rightarrow> Inl e
      | Inr (nrm, idx) \<Rightarrow>
     (case py_index (r_materials r) (materialIndex adata) of
        Inl e \<Rightarrow> Inl e
      | Inr mat \<Rightarrow>
          Inr ((MeshData M)\<lparr>vertex := v, vertex_index := vi, normal := Some nrm,
                 normal_index := Some idx, mesh_material := Some mat\<rparr>))))))"

text \<open>Lines 96-154: one shape of a link.\<close>

definition read_shape :: "model_py \<Rightarrow> VRMLReader \<Rightarrow> TransformedShapeIndex \<Rightarrow> error + shape" where
  "read_shape M r s =
     (case reshape 4 4 (transformMatrix s @ [0, 0, 0, 1]) of
        Inl e \<Rightarrow> Inl e
      | Inr mat \<Rightarrow>
     (case py_index (hrpshapes r) (shapeIndex s) of
        Inl e \<Rightarrow> Inl e
      | Inr sdata \<Rightarrow>
     (case (case primitiveType sdata of
              OpenHRP_SP_MESH \<Rightarrow>
                (case read_mesh M r sdata of
                   Inl e \<Rightarrow> Inl e
                 | Inr md \<Rightarrow> Inr (SP_MESH, Mesh md))
            | OpenHRP_SP_SPHERE \<Rightarrow>
                (case py_index (primitiveParameters sdata) 0 of Inl e \<Rightarrow> Inl e | Inr p0 \<Rightarrow>
                 (case py_index (r_materials r) (appearanceIndex sdata) of Inl e \<Rightarrow> Inl e | Inr m \<Rightarrow>
                    Inr (SP_SPHERE, SphereData p0 m)))
            | OpenHRP_SP_CYLINDER \<Rightarrow>
                (case py_index (primitiveParameters sdata) 0 of Inl e \<Rightarrow> Inl e | Inr p0 \<Rightarrow>
                 (case py_index (primitiveParameters sdata) 1 of Inl e \<Rightarrow> Inl e | Inr p1 \<Rightarrow>
                 (case py_index (r_materials r) (appearanceIndex sdata) of Inl e \<Rightarrow> Inl e | Inr m \<Rightarrow>
                    Inr (SP_CYLINDER, CylinderData p0 p1 m))))
            | OpenHRP_SP_BOX \<Rightarrow>
                (case py_index (primitiveParameters sdata) 0 of Inl e \<Rightarrow> Inl e | Inr p0 \<Rightarrow>
                 (case py_index (primitiveParameters sdata) 1 of Inl e \<Rightarrow> Inl e | Inr p1 \<Rightarrow>
                 (case py_index (primitiveParameters sdata) 2 of Inl e \<Rightarrow> Inl e | Inr p2 \<Rightarrow>
                 (case py_index (r_materials r) (appearanceIndex sdata) of Inl e \<Rightarrow> Inl e | Inr m \<Rightarrow>
                    Inr (SP_BOX, BoxData p0 p1 p2 m)))))
            | _ \<Rightarrow> Inl UnsupportedShapePrimitive) of
        Inl e \<Rightarrow> Inl e
      | Inr (ty, dat) \<Rightarrow>
          Inr \<lparr>sname = ''shape-'' @ str_int (shapeIndex s), matrix = mat,
               shapeType = ty, data = dat\<rparr>)))"

text \<open>\<^verbatim>\<open>readLink\<close>, lines 89-155.\<close>

definition readLink :: "model_py \<Rightarrow> VRMLReader \<Rightarrow> LinkInfo \<Rightarrow> error + link" where
  "readLink M r m =
     (case for_each (read_shape M r) (shapeIndices m) of
        Inl e \<Rightarrow> Inl e
      | Inr vs \<Rightarrow>
          Inr \<lparr>lname = hrp_name m, mass = hrp_mass m, centerofmass = centerOfMass m,
               visuals = vs\<rparr>)"

text \<open>A loop that updates a state and may raise.\<close>

primrec for_fold :: "('a \<Rightarrow> 's \<Rightarrow> error + 's) \<Rightarrow> 'a list \<Rightarrow> 's \<Rightarrow> error + 's" where
  "for_fold f [] s = Inr s"
| "for_fold f (x # xs) s = (case f x s of Inl e \<Rightarrow> Inl e | Inr s' \<Rightarrow> for_fold f xs s')"

text \<open>
  \<^verbatim>\<open>readChild\<close>, lines 157-183. The first argument bounds the depth of the recursion, as
  in \<open>convertchildren\<close>; \<open>qaa\<close> is \<^verbatim>\<open>tf.quaternion_about_axis\<close> of the third-party module
  \<^verbatim>\<open>transformations\<close>.
\<close>

fun readChild ::
  "nat \<Rightarrow> model_py \<Rightarrow> (real \<Rightarrow> real list \<Rightarrow> real list) \<Rightarrow> VRMLReader \<Rightarrow> LinkInfo \<Rightarrow> LinkInfo
     \<Rightarrow> error + VRMLReader" where
  "readChild 0 M qaa r parent_info child_info = Inl RecursionDepthExceeded"
| "readChild (Suc d) M qaa r parent_info child_info =
     (case readLink M r child_info of
        Inl e \<Rightarrow> Inl e
      | Inr lm \<Rightarrow>
     (let r1 = r\<lparr>r_links := r_links r @ [lm]\<rparr>;
          jm = (JointModel M)\<lparr>parent := hrp_name parent_info, child := hrp_name child_info,
                  jname := hrp_name parent_info @ hrp_name child_info\<rparr>
      in case (if hrp_jointType child_info = ''fixed'' then Inr (J_FIXED M)
               else if hrp_jointType child_info = ''rotate'' then Inr (J_REVOLUTE M)
               else if hrp_jointType child_info = ''slide'' then Inr (J_PRISMATIC M)
               else Inl (UnsupportedJointType (hrp_jointType child_info))) of
           Inl e \<Rightarrow> Inl e
         | Inr jt \<Rightarrow>
     (let jm1 = jm\<lparr>jointType := jt\<rparr>;
          jm2 = (case (ulimit child_info, llimit child_info) of
                   (u # _, l # _) \<Rightarrow> jm1\<lparr>limit := Some [u, l]\<rparr>
                 | _ \<Rightarrow> jm1);
          jm3 = jm2\<lparr>axis := jointAxis child_info, trans := translation child_info\<rparr>
      in case py_index (rotation child_info) 3 of
           Inl e \<Rightarrow> Inl e
         | Inr angle \<Rightarrow>
     (let jm4 = jm3\<lparr>rot := qaa angle (take 3 (rotation child_info))\<rparr>;
          r2 = r1\<lparr>r_joints := r_joints r1 @ [jm4]\<rparr>
      in for_fold
           (\<lambda>c s. case py_index (hrplinks s) c of
                     Inl e \<Rightarrow> Inl e
                   | Inr ch \<Rightarrow> readChild d M qaa s child_info ch)
           (childIndices child_info) r2))))"

text \<open>Lines 61-71 of \<^verbatim>\<open>read\<close>: the materials, numbered from 0.\<close>

fun read_materials :: "nat \<Rightarrow> MaterialInfo list \<Rightarrow> material list" where
  "read_materials mid [] = []"
| "read_materials mid (a # as) =
     \<lparr>mname = ''material-'' @ str_nat mid, ambient = ambientIntensity a,
      diffuse = diffuseColor a @ [1], specular = specularColor a @ [1],
      emission = emissiveColor a @ [1], shininess = hrp_shininess a,
      transparency = hrp_transparency a\<rparr> # read_materials (mid + 1) as"

text \<open>Lines 77-84 of \<^verbatim>\<open>read\<close>: an extra joint of a closed-link model.\<close>

definition read_extrajoint :: "model_py \<Rightarrow> ExtraJointInfo \<Rightarrow> joint" where
  "read_extrajoint M j =
     (JointModel M)\<lparr>parent := fst (ej_link j), child := snd (ej_link j),
        jname := ej_name j, axis := ej_axis j\<rparr>"

text \<open>
  \<^verbatim>\<open>read\<close>, lines 51-87, from the \<^verbatim>\<open>BodyInfo\<close> \<open>b\<close> that the model loader returned.
\<close>

definition VRMLReader_read ::
  "nat \<Rightarrow> model_py \<Rightarrow> (real \<Rightarrow> real list \<Rightarrow> real list) \<Rightarrow> BodyInfo \<Rightarrow> error + body" where
  "VRMLReader_read d M qaa b =
     (let r = \<lparr>r_joints = [], r_links = [], r_materials = read_materials 0 (hrp_materials b),
               hrplinks = hrp_links b, hrpshapes = hrp_shapes b,
               hrpapperances = hrp_appearances b, hrpmaterials = hrp_materials b,
               hrpextrajoints = extraJoints b\<rparr>
      in case py_index (hrplinks r) 0 of
           Inl e \<Rightarrow> Inl e
         | Inr rootinfo \<Rightarrow>
      (case readLink M r rootinfo of
           Inl e \<Rightarrow> Inl e
         | Inr lm \<Rightarrow>
      (case for_fold
              (\<lambda>c s. case py_index (hrplinks s) c of
                        Inl e \<Rightarrow> Inl e
                      | Inr ch \<Rightarrow> readChild d M qaa s rootinfo ch)
              (childIndices rootinfo) (r\<lparr>r_links := r_links r @ [lm]\<rparr>) of
           Inl e \<Rightarrow> Inl e
         | Inr r1 \<Rightarrow>
             Inr ((BodyModel M)\<lparr>links := r_links r1,
                    joints := r_joints r1 @ map (read_extrajoint M) (hrpextrajoints r1)\<rparr>))))"

subsection \<open>ColladaReader\<close>

text \<open>
  What \<^verbatim>\<open>collada.py\<close> reads of a pycollada document. A node of the scene is a
  \<^verbatim>\<open>collada.scene.Node\<close>, a \<^verbatim>\<open>collada.scene.GeometryNode\<close> or an object of another
  type. A parameter of an effect is a \<^verbatim>\<open>collada.material.Surface\<close>, with the path of its
  image, or something else. An attribute that may be \<^verbatim>\<open>None\<close> is an option.
\<close>

record primitive =
  p_vertex :: "real list list"
  p_vertex_index :: "int list list"
  p_normal :: "real list list option"
  p_normal_index :: "int list list option"
  texcoordset :: "real list list list"
  texcoord_indexset :: "int list list list"
  p_material :: "string option"

datatype effect_param = Surface (image_path: string) | OtherParam

datatype scene_node =
    Node (node_matrix: "real list list") (node_children: "scene_node list")
  | GeometryNode (primitives: "primitive list")
  | OtherNode

text \<open>
  The nested form that the reader returns and the writer takes: a
  \<^verbatim>\<open>model.MeshTransformData\<close> with its matrix and children, or a \<^verbatim>\<open>model.MeshData\<close>; a
  child may be \<^verbatim>\<open>None\<close>.

  Modelled from the spec: the constructor \<^verbatim>\<open>model.MeshTransformData()\<close> (the module
  \<^verbatim>\<open>model\<close> is not among the sources). Section 3 gives a transform node an ordered sequence
  of children and a local matrix; the constructor is taken to return a node without a
  matrix and with an empty list of children of its own.
\<close>

datatype meshnode =
    MeshTransformData (mt_matrix: "real list list option") (mt_children: "meshnode option list")
  | MeshDataNode meshdata

record ColladaReader =
  basepath :: string
  assethandler :: "(string \<Rightarrow> string) option"
  materials :: "string \<rightharpoonup> effect_param list"

text \<open>
  Lines 68-77: the image of a primitive. \<open>abspath_join\<close> is
  \<^verbatim>\<open>os.path.abspath(os.path.join(base, path))\<close>. The loop runs over the parameters of the
  effect of the material; the lookup of the material raises KeyError when the id is not in
  the table, and the \<^verbatim>\<open>except KeyError: pass\<close> around the loop then leaves the mesh as it is.
\<close>

fun set_images ::
  "(string \<Rightarrow> string \<Rightarrow> string) \<Rightarrow> ColladaReader \<Rightarrow> effect_param list \<Rightarrow> meshdata \<Rightarrow> meshdata" where
  "set_images abspath_join r [] sm = sm"
| "set_images abspath_join r (Surface path # prs) sm =
     (let fname = abspath_join (basepath r) path
      in set_images abspath_join r prs
           (sm\<lparr>image := Some (case assethandler r of Some h \<Rightarrow> h fname | None \<Rightarrow> fname)\<rparr>))"
| "set_images abspath_join r (OtherParam # prs) sm = set_images abspath_join r prs sm"

definition lookup_material :: "ColladaReader \<Rightarrow> string option \<Rightarrow> error + effect_param list" where
  "lookup_material r k =
     (case k of
        None \<Rightarrow> Inl KeyError
      | Some i \<Rightarrow> (case materials r i of None \<Rightarrow> Inl KeyError | Some prs \<Rightarrow> Inr prs))"

text \<open>Lines 59-78 of \<^verbatim>\<open>ColladaReader.convertchild\<close>: one primitive of a geometry.\<close>

definition convert_primitive ::
  "model_py \<Rightarrow> (string \<Rightarrow> string \<Rightarrow> string) \<Rightarrow> ColladaReader \<Rightarrow> primitive \<Rightarrow> error + meshdata" where
  "convert_primitive M abspath_join r p =
     (let sm = (MeshData M)\<lparr>vertex := p_vertex p, vertex_index := p_vertex_index p\<rparr>
      in case p_normal p of
           None \<Rightarrow> Inl AttributeError
         | Some n \<Rightarrow>
     (let sm1 = (if asize n > 0 then sm\<lparr>normal := Some n, normal_index := p_normal_index p\<rparr>
                 else sm)
      in case (if length (texcoordset p) > 0 then
                 (case py_index (texcoordset p) 0 of
                    Inl e \<Rightarrow> Inl e
                  | Inr uv \<Rightarrow>
                      (case py_index (texcoord_indexset p) 0 of
                         Inl e \<Rightarrow> Inl e
                       | Inr uvi \<Rightarrow> Inr (sm1\<lparr>uvmap := Some uv, uvmap_index := Some uvi\<rparr>)))
               else Inr sm1) of
           Inl e \<Rightarrow> Inl e
         | Inr sm2 \<Rightarrow>
             (case lookup_material r (p_material p) of
                Inl KeyError \<Rightarrow> Inr sm2
              | Inl e \<Rightarrow> Inl e
              | Inr prs \<Rightarrow> Inr (set_images abspath_join r prs sm2))))"

text \<open>
  \<^verbatim>\<open>ColladaReader.convertchild\<close>, lines 48-79. The second function is the loop over the
  children of a node (line 54-55), which appends every result, \<^verbatim>\<open>None\<close> too.
\<close>

fun convertchild ::
      "model_py \<Rightarrow> (string \<Rightarrow> string \<Rightarrow> string) \<Rightarrow> ColladaReader \<Rightarrow> scene_node
         \<Rightarrow> error + meshnode option"
  and convertchild_list ::
      "model_py \<Rightarrow> (string \<Rightarrow> string \<Rightarrow> string) \<Rightarrow> ColladaReader \<Rightarrow> scene_node list
         \<Rightarrow> error + meshnode option list" where
  "convertchild M aj r (Node mat cs) =
     (case convertchild_list M aj r cs of
        Inl e \<Rightarrow> Inl e
      | Inr ms \<Rightarrow> Inr (Some (MeshTransformData (Some mat) ms)))"
| "convertchild M aj r (GeometryNode ps) =
     (case for_each (convert_primitive M aj r) ps of
        Inl e \<Rightarrow> Inl e
      | Inr sms \<Rightarrow> Inr (Some (MeshTransformData None (map (\<lambda>sm. Some (MeshDataNode sm)) sms))))"
| "convertchild M aj r OtherNode = Inr None"
| "convertchild_list M aj r [] = Inr []"
| "convertchild_list M aj r (c # cs) =
     (case convertchild M aj r c of
        Inl e \<Rightarrow> Inl e
      | Inr m \<Rightarrow>
          (case convertchild_list M aj r cs of
             Inl e \<Rightarrow> Inl e
           | Inr ms \<Rightarrow> Inr (m # ms)))"

text \<open>
  \<^verbatim>\<open>ColladaReader.read\<close>, lines 35-46, from the document \<open>d\<close> that pycollada parsed:
  its materials, as pairs of an id and the parameters of the effect, and the nodes of its
  scene. \<open>dirname\<close> is \<^verbatim>\<open>os.path.dirname(f)\<close>.
\<close>

record document =
  doc_materials :: "(string \<times> effect_param list) list"
  scene_nodes :: "scene_node list"

fun add_materials ::
  "(string \<rightharpoonup> effect_param list) \<Rightarrow> (string \<times> effect_param list) list
     \<Rightarrow> (string \<rightharpoonup> effect_param list)" where
  "add_materials t [] = t"
| "add_materials t ((i, m) # ms) = add_materials (t(i \<mapsto> m)) ms"

definition ColladaReader_read ::
  "model_py \<Rightarrow> (string \<Rightarrow> string \<Rightarrow> string) \<Rightarrow> ColladaReader \<Rightarrow> string
     \<Rightarrow> (string \<Rightarrow> string) option \<Rightarrow> document \<Rightarrow> error + (ColladaReader \<times> meshnode)" where
  "ColladaReader_read M aj r dirname h d =
     (let r' = r\<lparr>basepath := dirname, assethandler := h,
                 materials := add_materials (materials r) (doc_materials d)\<rparr>
      in case convertchild_list M aj r' (scene_nodes d) of
           Inl e \<Rightarrow> Inl e
         | Inr cms \<Rightarrow>
             Inr (r', MeshTransformData None (filter (\<lambda>cm. cm \<noteq> None) cms)))"

subsection \<open>ColladaWriter\<close>

text \<open>
  What the writer hands to pycollada: the sources, the list of inputs and the index stream
  of the triangle set, the geometry, and the nodes of the scene.
\<close>

record float_source =
  source_id :: string
  source_data :: "real list"
  components :: "string list"

record triangle_set =
  ts_indices :: "int list"
  ts_inputs :: "(nat \<times> string \<times> string) list"
  ts_material :: string

record geometry =
  geom_id :: string
  geom_name :: string
  geom_sources :: "float_source list"
  geom_primitives :: "triangle_set list"

datatype written_node =
    WNode (w_name: string) (w_children: "written_node list")
  | WGeometryNode geometry

text \<open>
  The attributes of the writer that \<^verbatim>\<open>convertchild\<close> changes: the geometries appended
  to the document, and the number of names drawn so far (\<open>uuid\<close> maps that number to
  \<^verbatim>\<open>str(uuid.uuid1()).replace('-', '')\<close>).
\<close>

record ColladaWriter =
  geometries :: "geometry list"
  drawn :: nat

text \<open>
  \<^verbatim>\<open>if m.normal:\<close> on an attribute that is \<^verbatim>\<open>None\<close> or a NumPy array: \<^verbatim>\<open>None\<close> and an
  empty array are false, an array of one element is as true as its element, and an array
  of more than one element raises ValueError.
\<close>

definition truth_value :: "real list list option \<Rightarrow> error + bool" where
  "truth_value a =
     (case a of
        None \<Rightarrow> Inr False
      | Some n \<Rightarrow>
          (if asize n = 0 then Inr False
           else if asize n = 1 then Inr (hd (concat n) \<noteq> 0)
           else Inl ValueError))"

text \<open>
  \<^verbatim>\<open>numpy.vstack([a, b])\<close> puts the rows of \<open>b\<close> under those of \<open>a\<close>; it raises
  ValueError unless all rows have the same length.
\<close>

definition vstack :: "'a list list \<Rightarrow> 'a list list \<Rightarrow> error + 'a list list" where
  "vstack a b =
     (if map length (a @ b) = replicate (length (a @ b)) (length (hd (a @ b)))
      then Inr (a @ b) else Inl ValueError)"

text \<open>Lines 123-142 of \<^verbatim>\<open>ColladaWriter.convertchild\<close>: a \<^verbatim>\<open>MeshData\<close>.\<close>

definition convert_mesh ::
  "(nat \<Rightarrow> string) \<Rightarrow> ColladaWriter \<Rightarrow> meshdata \<Rightarrow> error + (ColladaWriter \<times> written_node)" where
  "convert_mesh uuid w m =
     (let name = ''shape-'' @ uuid (drawn w);
          vertexname = name @ ''-vertex'';
          normalname = name @ ''-normal'';
          sources = [\<lparr>source_id = vertexname, source_data = concat (vertex m),
                      components = [''X'', ''Y'', ''Z'']\<rparr>];
          indices = [concat (vertex_index m)];
          input_list = [(0, ''VERTEX'', ''#'' @ vertexname)]
      in case truth_value (normal m) of
           Inl e \<Rightarrow> Inl e
         | Inr b \<Rightarrow>
     (case (if b then
              (case normal_index m of
                 None \<Rightarrow> Inl AttributeError
               | Some ni \<Rightarrow>
                   (case vstack indices [concat ni] of
                      Inl e \<Rightarrow> Inl e
                    | Inr stacked \<Rightarrow>
                        Inr (sources @ [\<lparr>source_id = normalname,
                                          source_data =
                                            (case normal m of Some n \<Rightarrow> concat n | None \<Rightarrow> []),
                                          components = [''X'', ''Y'', ''Z'']\<rparr>],
                             stacked,
                             input_list @ [(1, ''NORMAL'', ''#'' @ normalname)])))
            else Inr (sources, indices, input_list)) of
        Inl e \<Rightarrow> Inl e
      | Inr (sources', indices', input_list') \<Rightarrow>
          (let triset = \<lparr>ts_indices = concat (transpose indices'), ts_inputs = input_list',
                         ts_material = ''materialref''\<rparr>;
               geom = \<lparr>geom_id = ''geometry0'', geom_name = name, geom_sources = sources',
                       geom_primitives = [triset]\<rparr>
           in Inr (w\<lparr>geometries := geometries w @ [geom], drawn := drawn w + 1\<rparr>,
                   WGeometryNode geom))))"

text \<open>
  \<^verbatim>\<open>ColladaWriter.convertchild\<close>, lines 113-143, with the loop over the children of a
  \<^verbatim>\<open>MeshTransformData\<close> (lines 117-120), which drops the children that gave \<^verbatim>\<open>None\<close>.
\<close>

fun w_convertchild ::
      "(nat \<Rightarrow> string) \<Rightarrow> ColladaWriter \<Rightarrow> meshnode option
         \<Rightarrow> error + (ColladaWriter \<times> written_node option)"
  and w_convertchild_list ::
      "(nat \<Rightarrow> string) \<Rightarrow> ColladaWriter \<Rightarrow> meshnode option list
         \<Rightarrow> error + (ColladaWriter \<times> written_node list)" where
  "w_convertchild uuid w None = Inr (w, None)"
| "w_convertchild uuid w (Some (MeshTransformData mat cs)) =
     (let name = ''node-'' @ uuid (drawn w)
      in case w_convertchild_list uuid (w\<lparr>drawn := drawn w + 1\<rparr>) cs of
           Inl e \<Rightarrow> Inl e
         | Inr (w', children) \<Rightarrow> Inr (w', Some (WNode name children)))"
| "w_convertchild uuid w (Some (MeshDataNode m)) =
     (case convert_mesh uuid w m of
        Inl e \<Rightarrow> Inl e
      | Inr (w', node) \<Rightarrow> Inr (w', Some node))"
| "w_convertchild_list uuid w [] = Inr (w, [])"
| "w_convertchild_list uuid w (c # cs) =
     (case w_convertchild uuid w c of
        Inl e \<Rightarrow> Inl e
      | Inr (w', cn) \<Rightarrow>
          (case w_convertchild_list uuid w' cs of
             Inl e \<Rightarrow> Inl e
           | Inr (w'', cns) \<Rightarrow>
               Inr (w'', (case cn of Some n \<Rightarrow> n # cns | None \<Rightarrow> cns))))"

subsection \<open>The graph of a body\<close>

text \<open>
  The joints of a body as a set of directed edges from the parent to the child, and the
  notions that the specification uses of it: a cycle that can be reached from a link, a
  directed forest (no cycle, and no link that is the child of two different links), and the
  links of one connected component.
\<close>

definition edges :: "body \<Rightarrow> (string \<times> string) set" where
  "edges mdata = (\<lambda>j. (parent j, child j)) ` set (joints mdata)"

definition cycle_reachable :: "body \<Rightarrow> string \<Rightarrow> bool" where
  "cycle_reachable mdata x \<longleftrightarrow> (\<exists>y. (x, y) \<in> (edges mdata)\<^sup>* \<and> (y, y) \<in> (edges mdata)\<^sup>+)"

definition directed_forest :: "body \<Rightarrow> bool" where
  "directed_forest mdata \<longleftrightarrow> acyclic (edges mdata) \<and> single_valued ((edges mdata)\<inverse>)"

definition connected :: "body \<Rightarrow> string \<Rightarrow> string \<Rightarrow> bool" where
  "connected mdata x y \<longleftrightarrow> (x, y) \<in> (edges mdata \<union> (edges mdata)\<inverse>)\<^sup>*"

definition supported_types :: "model_py \<Rightarrow> body \<Rightarrow> bool" where
  "supported_types M mdata \<longleftrightarrow>
     jointType ` set (joints mdata) \<subseteq> {J_FIXED M, J_REVOLUTE M, J_PRISMATIC M, J_SCREW M}"

subsection \<open>Concrete inputs\<close>

definition ex_M :: model_py where
  "ex_M = \<lparr>J_FIXED = ''fixed'', J_REVOLUTE = ''revolute'', J_PRISMATIC = ''prismatic'',
           J_SCREW = ''screw'',
           JointModel = \<lparr>jname = [], parent = [], child = [], jointType = ''fixed'', axis = [],
                          limit = None, trans = [], rot = []\<rparr>,
           BodyModel = \<lparr>bname = None, links = [], joints = []\<rparr>,
           MeshData = \<lparr>vertex = [], vertex_index = [], normal = None, normal_index = None,
                        uvmap = None, uvmap_index = None, image = None,
                        mesh_material = None\<rparr>\<rparr>"

definition ex_joint :: "string \<Rightarrow> string \<Rightarrow> joint" where
  "ex_joint p c = (JointModel ex_M)\<lparr>jname := p @ c, parent := p, child := c\<rparr>"

definition ex_link :: "string \<Rightarrow> link" where
  "ex_link n = \<lparr>lname = n, mass = 1, centerofmass = [0, 0, 0], visuals = []\<rparr>"

text \<open>The edges A\<rightarrow>B, B\<rightarrow>C, C\<rightarrow>A.\<close>

definition ex_cycle :: body where
  "ex_cycle = \<lparr>bname = Some ''cycle'', links = [ex_link ''A'', ex_link ''B'', ex_link ''C''],
     joints = [ex_joint ''A'' ''B'', ex_joint ''B'' ''C'', ex_joint ''C'' ''A'']\<rparr>"

text \<open>The edges A\<rightarrow>B, B\<rightarrow>A.\<close>

definition ex_ab :: body where
  "ex_ab = \<lparr>bname = Some ''ab'', links = [ex_link ''A'', ex_link ''B''],
     joints = [ex_joint ''A'' ''B'', ex_joint ''B'' ''A'']\<rparr>"

text \<open>A chain attached to the world: world\<rightarrow>A, A\<rightarrow>AB.\<close>

definition ex_world :: body where
  "ex_world = \<lparr>bname = Some ''w'', links = [ex_link ''A'', ex_link ''AB''],
     joints = [ex_joint ''world'' ''A'', ex_joint ''A'' ''AB'']\<rparr>"

text \<open>
  A joint whose child is not among the links: A\<rightarrow>B and B\<rightarrow>C with the links A and C only.
  \<open>ex_stale\<close> is the link map of a writer that has written a body with a link B before.
\<close>

definition ex_dangling :: body where
  "ex_dangling = \<lparr>bname = Some ''dangling'', links = [ex_link ''A'', ex_link ''C''],
     joints = [ex_joint ''A'' ''B'', ex_joint ''B'' ''C'']\<rparr>"

definition ex_stale :: "string \<rightharpoonup> link" where
  "ex_stale = [''B'' \<mapsto> ex_link ''B'']"

text \<open>
  A reader with one material and one appearance: four normals, one for each vertex, and no
  normal indices. A square of four vertices and two triangles, and a triangle whose last
  index, 7, is beyond its three vertices.
\<close>

definition ex_matinfo :: MaterialInfo where
  "ex_matinfo = \<lparr>ambientIntensity = 1, diffuseColor = [1, 0, 0], emissiveColor = [0, 0, 0],
     hrp_shininess = 0, specularColor = [0, 0, 0], hrp_transparency = 0\<rparr>"

definition ex_appearance :: AppearanceInfo where
  "ex_appearance = \<lparr>materialIndex = 0,
     normals = [0, 0, 1, 0, 0, 1, 0, 0, 1, 0, 0, 1], normalIndices = [],
     normalPerVertex = True\<rparr>"

definition ex_reader :: VRMLReader where
  "ex_reader = \<lparr>r_joints = [], r_links = [], r_materials = read_materials 0 [ex_matinfo],
     hrplinks = [], hrpshapes = [], hrpapperances = [ex_appearance],
     hrpmaterials = [ex_matinfo], hrpextrajoints = []\<rparr>"

definition ex_square :: ShapeInfo where
  "ex_square = \<lparr>primitiveType = OpenHRP_SP_MESH,
     vertices = [0, 0, 0, 1, 0, 0, 1, 1, 0, 0, 1, 0], triangles = [0, 1, 2, 0, 2, 3],
     primitiveParameters = [], appearanceIndex = 0\<rparr>"

definition ex_outofrange :: ShapeInfo where
  "ex_outofrange = \<lparr>primitiveType = OpenHRP_SP_MESH,
     vertices = [0, 0, 0, 1, 0, 0, 1, 1, 0], triangles = [0, 1, 7],
     primitiveParameters = [], appearanceIndex = 0\<rparr>"

text \<open>
  A closed-link model: the link L0 with its children L1 and L2, and an extra joint from L1
  to L2 that closes the loop. \<open>ex_qaa\<close> stands for \<^verbatim>\<open>tf.quaternion_about_axis\<close>.
\<close>

definition ex_linkinfo :: "string \<Rightarrow> int list \<Rightarrow> LinkInfo" where
  "ex_linkinfo n cs = \<lparr>hrp_name = n, hrp_mass = 1, centerOfMass = [0, 0, 0],
     shapeIndices = [], childIndices = cs, hrp_jointType = ''rotate'', ulimit = [1],
     llimit = [-1], jointAxis = [0, 0, 1], translation = [0, 0, 0], rotation = [0, 0, 1, 0]\<rparr>"

definition ex_closed :: BodyInfo where
  "ex_closed = \<lparr>hrp_links = [ex_linkinfo ''L0'' [1, 2], ex_linkinfo ''L1'' [],
                              ex_linkinfo ''L2'' []],
     hrp_shapes = [], hrp_appearances = [], hrp_materials = [],
     extraJoints = [\<lparr>ej_name = ''loop'', ej_link = (''L1'', ''L2''), ej_axis = [0, 0, 1]\<rparr>]\<rparr>"

definition ex_qaa :: "real \<Rightarrow> real list \<Rightarrow> real list" where
  "ex_qaa angle ax = angle # ax"

text \<open>The body that the reader makes of \<open>ex_closed\<close>.\<close>

definition ex_tree_joint :: "string \<Rightarrow> string \<Rightarrow> joint" where
  "ex_tree_joint p c = \<lparr>jname = p @ c, parent = p, child = c, jointType = ''revolute'',
     axis = [0, 0, 1], limit = Some [1, -1], trans = [0, 0, 0], rot = [0, 0, 0, 1]\<rparr>"

definition ex_loop_joint :: joint where
  "ex_loop_joint = \<lparr>jname = ''loop'', parent = ''L1'', child = ''L2'', jointType = ''fixed'',
     axis = [0, 0, 1], limit = None, trans = [], rot = []\<rparr>"

definition ex_closed_body :: body where
  "ex_closed_body = \<lparr>bname = None, links = [ex_link ''L0'', ex_link ''L1'', ex_link ''L2''],
     joints = [ex_tree_joint ''L0'' ''L1'', ex_tree_joint ''L0'' ''L2'', ex_loop_joint]\<rparr>"

text \<open>
  A Collada reader whose table of materials holds the id 'mat0' only, and a primitive that
  declares the material 'steel'. \<open>ex_join\<close> stands for the join of the two paths.
\<close>

definition ex_creader :: ColladaReader where
  "ex_creader = \<lparr>basepath = ''/models'', assethandler = None,
     materials = [''mat0'' \<mapsto> [OtherParam, Surface ''tex.png'']]\<rparr>"

definition ex_join :: "string \<Rightarrow> string \<Rightarrow> string" where
  "ex_join base path = base @ ''/'' @ path"

definition ex_primitive :: primitive where
  "ex_primitive = \<lparr>p_vertex = [[0, 0, 0], [1, 0, 0], [0, 1, 0]], p_vertex_index = [[0, 1, 2]],
     p_normal = Some [[0, 0, 1]], p_normal_index = Some [[0, 0, 0]],
     texcoordset = [], texcoord_indexset = [], p_material = Some ''steel''\<rparr>"

text \<open>
  A mesh with one normal for each of its three vertices, and a mesh whose normal array has
  the single element 1.
\<close>

definition ex_mesh :: meshdata where
  "ex_mesh = (MeshData ex_M)\<lparr>vertex := [[0, 0, 0], [1, 0, 0], [0, 1, 0]],
     vertex_index := [[0, 1, 2]], normal := Some [[0, 0, 1], [0, 0, 1], [0, 0, 1]],
     normal_index := Some [[0, 1, 2]]\<rparr>"

definition ex_mesh1 :: meshdata where
  "ex_mesh1 = (MeshData ex_M)\<lparr>vertex := [[0, 0, 0], [1, 0, 0], [0, 1, 0]],
     vertex_index := [[0, 1, 2]], normal := Some [[1]], normal_index := Some [[0, 0, 0]]\<rparr>"

definition ex_uuid :: "nat \<Rightarrow> string" where
  "ex_uuid k = str_nat k"

definition ex_cwriter :: ColladaWriter where
  "ex_cwriter = \<lparr>geometries = [], drawn = 0\<rparr>"

section \<open>Properties\<close>

subsection \<open>Loops\<close>

lemma for_each_Inl_elem:
  "for_each f xs = Inl e \<Longrightarrow> \<exists>x\<in>set xs. f x = Inl e"
  by (induction xs) (auto split: sum.splits)

lemma for_each_fails:
  "x \<in> set xs \<Longrightarrow> f x = Inl e \<Longrightarrow> \<exists>e'. for_each f xs = Inl e'"
  by (induction xs) (auto split: sum.splits)

lemma for_each_Inr:
  "for_each f xs = Inr ys \<Longrightarrow> length ys = length xs \<and> (\<forall>i<length xs. f (xs ! i) = Inr (ys ! i))"
proof (induction xs arbitrary: ys)
  case Nil
  then show ?case by simp
next
  case (Cons x xs)
  from Cons.prems obtain y ys' where y: "f x = Inr y" and ys': "for_each f xs = Inr ys'"
    and eq: "ys = y # ys'"
    by (auto split: sum.splits)
  from Cons.IH [OF ys'] have "length ys' = length xs"
    and nth: "\<forall>i<length xs. f (xs ! i) = Inr (ys' ! i)" by simp_all
  show ?case
  proof (intro conjI allI impI)
    show "length ys = length (x # xs)" using \<open>length ys' = length xs\<close> eq by simp
  next
    fix i assume "i < length (x # xs)"
    then show "f ((x # xs) ! i) = Inr (ys ! i)"
      using y nth eq by (cases i) simp_all
  qed
qed

lemma convertjointtype_error:
  "convertjointtype M t = Inl e \<Longrightarrow> e = UnsupportedJointType t"
  by (simp add: convertjointtype_def split: if_splits)

lemma convertchildren_errors:
  "convertchildren d M lm mdata x = Inl e \<Longrightarrow>
     e = RecursionDepthExceeded \<or> (\<exists>t. e = UnsupportedJointType t)"
proof (induction d arbitrary: x e)
  case 0
  then show ?case by simp
next
  case (Suc d)
  from Suc.prems obtain j where "j \<in> set (findchildren mdata x)"
    and "(case convertjointtype M (jointType j) of
            Inl e \<Rightarrow> Inl e
          | Inr t \<Rightarrow>
              (case convertchildren d M lm mdata (child j) of
                 Inl e \<Rightarrow> Inl e
               | Inr ch \<Rightarrow> Inr (NModel j t (lm (child j)) ch))) = Inl e"
    by (auto dest!: for_each_Inl_elem)
  then show ?case
    using Suc.IH by (auto split: sum.splits dest: convertjointtype_error)
qed

lemma cycle_reachable_step:
  assumes "cycle_reachable mdata x"
  shows "\<exists>z. (x, z) \<in> edges mdata \<and> cycle_reachable mdata z"
proof -
  from assms obtain y where xy: "(x, y) \<in> (edges mdata)\<^sup>*" and yy: "(y, y) \<in> (edges mdata)\<^sup>+"
    by (auto simp: cycle_reachable_def)
  show ?thesis
  proof (cases "x = y")
    case True
    from yy obtain z where "(y, z) \<in> edges mdata" and "(z, y) \<in> (edges mdata)\<^sup>*"
      by (auto dest: tranclD)
    then show ?thesis using True yy by (auto simp: cycle_reachable_def)
  next
    case False
    with xy obtain z where "(x, z) \<in> edges mdata" and "(z, y) \<in> (edges mdata)\<^sup>*"
      by (auto elim: converse_rtranclE)
    then show ?thesis using yy by (auto simp: cycle_reachable_def)
  qed
qed

lemma edge_findchildren:
  "(x, z) \<in> edges mdata \<Longrightarrow> \<exists>j\<in>set (findchildren mdata x). child j = z"
  by (auto simp: edges_def)

lemma convertchildren_cycle_fails:
  "cycle_reachable mdata x \<Longrightarrow> \<exists>e. convertchildren d M lm mdata x = Inl e"
proof (induction d arbitrary: x)
  case 0
  then show ?case by simp
next
  case (Suc d)
  from cycle_reachable_step [OF Suc.prems] obtain z where
    xz: "(x, z) \<in> edges mdata" and z: "cycle_reachable mdata z" by blast
  from edge_findchildren [OF xz] obtain j where j: "j \<in> set (findchildren mdata x)"
    and cj: "child j = z" by blast
  from Suc.IH [OF z] obtain e where e: "convertchildren d M lm mdata z = Inl e" by blast
  let ?f = "\<lambda>cjoint.
          case convertjointtype M (jointType cjoint) of
            Inl e \<Rightarrow> Inl e
          | Inr t \<Rightarrow>
              (case convertchildren d M lm mdata (child cjoint) of
                 Inl e \<Rightarrow> Inl e
               | Inr ch \<Rightarrow> Inr (NModel cjoint t (lm (child cjoint)) ch))"
  have "\<exists>e'. ?f j = Inl e'" using e cj by (auto split: sum.splits)
  then obtain e' where "?f j = Inl e'" ..
  from for_each_fails [of j _ ?f, OF j this] show ?case by simp
qed

lemma convertjointtype_supported:
  "t \<in> {J_FIXED M, J_REVOLUTE M, J_PRISMATIC M, J_SCREW M} \<Longrightarrow> \<exists>l. convertjointtype M t = Inr l"
  by (auto simp: convertjointtype_def)

lemma convertchildren_supported_errors:
  "supported_types M mdata \<Longrightarrow> convertchildren d M lm mdata x = Inl e \<Longrightarrow> e = RecursionDepthExceeded"
proof (induction d arbitrary: x e)
  case 0
  then show ?case by simp
next
  case (Suc d)
  from Suc.prems(2) obtain j where j: "j \<in> set (findchildren mdata x)"
    and f: "(case convertjointtype M (jointType j) of
            Inl e \<Rightarrow> Inl e
          | Inr t \<Rightarrow>
              (case convertchildren d M lm mdata (child j) of
                 Inl e \<Rightarrow> Inl e
               | Inr ch \<Rightarrow> Inr (NModel j t (lm (child j)) ch))) = Inl e"
    by (auto dest!: for_each_Inl_elem)
  from j Suc.prems(1) have "jointType j \<in> {J_FIXED M, J_REVOLUTE M, J_PRISMATIC M, J_SCREW M}"
    by (auto simp: supported_types_def)
  from convertjointtype_supported [OF this] obtain l where "convertjointtype M (jointType j) = Inr l" ..
  with f show ?case using Suc.IH [OF Suc.prems(1)] by (auto split: sum.splits)
qed

lemma ex_cycle_reachable: "cycle_reachable ex_cycle ''A''"
proof -
  have ab: "(''A'', ''B'') \<in> edges ex_cycle" and bc: "(''B'', ''C'') \<in> edges ex_cycle"
    and ca: "(''C'', ''A'') \<in> edges ex_cycle"
    by (simp_all add: edges_def ex_cycle_def ex_joint_def)
  have "(''A'', ''A'') \<in> (edges ex_cycle)\<^sup>+"
    using ab bc ca by (meson trancl.intros)
  then show ?thesis unfolding cycle_reachable_def by blast
qed

lemma ex_cycle_supported: "supported_types ex_M ex_cycle"
  by (simp add: supported_types_def ex_cycle_def ex_joint_def ex_M_def)

subsection \<open>The tree build on a body with a cycle\<close>

text \<open>
  C1 (as amended). For every body whose joint edge list contains a cycle that can be
  reached from the link where the tree build starts, \<open>convertchildren\<close> never returns a
  tree and never raises a CycleDetectedError, whatever depth the recursion limit allows:
  the code keeps no set of visited links, so the call ends with the interpreter's
  "maximum recursion depth exceeded" when all joint types of the body are supported (and
  otherwise with that error or the exception for an unsupported joint type).
\<close>

theorem convertchildren_cycle_exhausts:
  assumes "cycle_reachable mdata linkname"
  shows "\<exists>e. convertchildren d M lm mdata linkname = Inl e \<and> e \<noteq> CycleDetectedError
           \<and> (supported_types M mdata \<longrightarrow> e = RecursionDepthExceeded)"
proof -
  from convertchildren_cycle_fails [OF assms] obtain e
    where e: "convertchildren d M lm mdata linkname = Inl e" by blast
  from convertchildren_errors [OF e] have "e \<noteq> CycleDetectedError" by auto
  moreover have "supported_types M mdata \<longrightarrow> e = RecursionDepthExceeded"
    using convertchildren_supported_errors [OF _ e] by blast
  ultimately show ?thesis using e by blast
qed

theorem convertchildren_cycle_exhausts_witness:
  "cycle_reachable ex_cycle ''A'' \<and> supported_types ex_M ex_cycle
   \<and> convertchildren 1000 ex_M (load_links Map.empty (links ex_cycle)) ex_cycle ''A''
       = Inl RecursionDepthExceeded"
  using convertchildren_cycle_exhausts
          [OF ex_cycle_reachable, of 1000 ex_M "load_links Map.empty (links ex_cycle)"]
        ex_cycle_reachable ex_cycle_supported
  by auto

text \<open>
  C1 as stated fails: on the edges A\<rightarrow>B, B\<rightarrow>C, C\<rightarrow>A the tree build started at A, with the
  default recursion limit of 1000, ends with the recursion depth error, not with a
  CycleDetectedError.
\<close>

theorem convertchildren_cycle_counterexample:
  "convertchildren 1000 ex_M (load_links Map.empty (links ex_cycle)) ex_cycle ''A''
     = Inl RecursionDepthExceeded
   \<and> convertchildren 1000 ex_M (load_links Map.empty (links ex_cycle)) ex_cycle ''A''
     \<noteq> Inl CycleDetectedError"
proof -
  from convertchildren_cycle_fails [OF ex_cycle_reachable] obtain e
    where e: "convertchildren 1000 ex_M (load_links Map.empty (links ex_cycle)) ex_cycle ''A''
                = Inl e"
    by blast
  from convertchildren_supported_errors [OF ex_cycle_supported e] e show ?thesis by simp
qed

subsection \<open>Root detection\<close>

lemma keys_dict_incr: "fst ` set (dict_incr d k) = insert k (fst ` set d)"
  by (induction d k rule: dict_incr.induct) auto

lemma distinct_dict_incr:
  "distinct (map fst d) \<Longrightarrow> distinct (map fst (dict_incr d k))"
proof (induction d k rule: dict_incr.induct)
  case (1 k)
  then show ?case by simp
next
  case (2 k' c d k)
  have "k' \<notin> fst ` set (dict_incr d k)" if "k' \<noteq> k"
    using that 2(2) by (simp add: keys_dict_incr)
  then show ?case using 2 by auto
qed

lemma keys_count_parents:
  "fst ` set (count_parents d js) = fst ` set d \<union> (parent ` set js - {''world''})"
  by (induction d js rule: count_parents.induct) (auto simp: keys_dict_incr)

lemma distinct_count_parents:
  "distinct (map fst d) \<Longrightarrow> distinct (map fst (count_parents d js))"
  by (induction d js rule: count_parents.induct) (auto simp: distinct_dict_incr)

lemma keys_del_children:
  "fst ` set (del_children d js) = fst ` set d - child ` set js"
  by (induction d js rule: del_children.induct) auto

lemma distinct_del_children:
  "distinct (map fst d) \<Longrightarrow> distinct (map fst (del_children d js))"
  by (induction d js rule: del_children.induct) (auto simp: distinct_map_filter)

lemma distinct_map_fst_sort_key:
  "distinct (map fst (sort_key f xs)) = distinct (map fst xs)"
  by (simp add: distinct_map)

lemma set_findroot:
  "set (findroot mdata) = (parent ` set (joints mdata) - {''world''}) - child ` set (joints mdata)"
  by (simp add: findroot_def keys_del_children keys_count_parents)

lemma distinct_findroot: "distinct (findroot mdata)"
  by (simp add: findroot_def distinct_map_fst_sort_key distinct_del_children distinct_count_parents)

lemma finite_edges: "finite (edges mdata)"
  by (simp add: edges_def)

lemma Domain_edges: "Domain (edges mdata) = parent ` set (joints mdata)"
  by (force simp: edges_def)

lemma Range_edges: "Range (edges mdata) = child ` set (joints mdata)"
  by (force simp: edges_def)

text \<open>Every node of a finite acyclic graph is below a node without predecessor.\<close>

lemma source_above:
  assumes fin: "finite E" and ac: "acyclic E" and x: "x \<in> Field E"
  shows "\<exists>r. r \<in> Domain E \<and> r \<notin> Range E \<and> (r, x) \<in> E\<^sup>*"
proof -
  have wf: "wf E" using fin ac by (rule finite_acyclic_wf)
  have "x \<in> {y. (y, x) \<in> E\<^sup>*}" by simp
  from wfE_min [OF wf this] obtain z where z0: "z \<in> {y. (y, x) \<in> E\<^sup>*}"
    and min: "\<And>y. (y, z) \<in> E \<Longrightarrow> y \<notin> {y. (y, x) \<in> E\<^sup>*}" by blast
  from z0 have z: "(z, x) \<in> E\<^sup>*" by simp
  have nr: "z \<notin> Range E"
  proof
    assume "z \<in> Range E"
    then obtain y where yz: "(y, z) \<in> E" by blast
    from yz z have "(y, x) \<in> E\<^sup>*" by (rule converse_rtrancl_into_rtrancl)
    with min [OF yz] show False by simp
  qed
  have "z \<in> Domain E"
  proof (cases "z = x")
    case True
    with x nr show ?thesis by (simp add: Field_def)
  next
    case False
    from z show ?thesis
    proof (cases rule: converse_rtranclE)
      case base
      with False show ?thesis by simp
    next
      case (step y)
      then show ?thesis by blast
    qed
  qed
  with nr z show ?thesis by blast
qed

text \<open>
  Where no node has two predecessors, a node without predecessor lies above both ends of an
  edge or above neither; so it does all over a connected component.
\<close>

lemma sources_edge:
  assumes sv: "single_valued (E\<inverse>)" and ab: "(a, b) \<in> E" and r: "r \<notin> Range E"
  shows "(r, a) \<in> E\<^sup>* \<longleftrightarrow> (r, b) \<in> E\<^sup>*"
proof
  assume "(r, a) \<in> E\<^sup>*"
  then show "(r, b) \<in> E\<^sup>*" using ab by (rule rtrancl_into_rtrancl)
next
  assume rb: "(r, b) \<in> E\<^sup>*"
  then show "(r, a) \<in> E\<^sup>*"
  proof (cases rule: rtranclE)
    case base
    with ab r show ?thesis by blast
  next
    case (step y)
    from step(2) have "(b, y) \<in> E\<inverse>" by simp
    moreover from ab have "(b, a) \<in> E\<inverse>" by simp
    ultimately have "y = a" using sv by (rule single_valuedD [rotated])
    with step(1) show ?thesis by simp
  qed
qed

lemma sources_connected:
  assumes sv: "single_valued (E\<inverse>)" and r: "r \<notin> Range E" and xy: "(x, y) \<in> (E \<union> E\<inverse>)\<^sup>*"
  shows "(r, x) \<in> E\<^sup>* \<longleftrightarrow> (r, y) \<in> E\<^sup>*"
  using xy
proof (induction rule: rtrancl_induct)
  case base
  show ?case ..
next
  case (step y z)
  from step(2) have "(y, z) \<in> E \<or> (z, y) \<in> E" by simp
  then show ?case
  proof
    assume "(y, z) \<in> E"
    from sources_edge [OF sv this r] step.IH show ?thesis by simp
  next
    assume "(z, y) \<in> E"
    from sources_edge [OF sv this r] step.IH show ?thesis by simp
  qed
qed

lemma source_unique:
  assumes sv: "single_valued (E\<inverse>)"
    and r1: "r1 \<notin> Range E" and r2: "r2 \<notin> Range E"
    and c1: "(r1, x) \<in> (E \<union> E\<inverse>)\<^sup>*" and c2: "(r2, x) \<in> (E \<union> E\<inverse>)\<^sup>*"
  shows "r1 = r2"
proof -
  have "(r1, r1) \<in> E\<^sup>*" by simp
  with sources_connected [OF sv r1 c1] have "(r1, x) \<in> E\<^sup>*" by simp
  with sources_connected [OF sv r1 c2] have "(r1, r2) \<in> E\<^sup>*" by simp
  then show ?thesis
  proof (cases rule: rtranclE)
    case base
    then show ?thesis by simp
  next
    case (step y)
    with r2 show ?thesis by blast
  qed
qed

text \<open>
  Where the joint edges form a directed forest (no cycle, and no link that is the child of
  two different links), \<open>findroot\<close> returns exactly one candidate in the connected
  component of every link that occurs in a joint, unless that component holds the world
  sentinel.
\<close>

lemma findroot_forest_component:
  assumes "directed_forest mdata" and x: "x \<in> Field (edges mdata)"
    and nw: "\<not> connected mdata ''world'' x"
  shows "\<exists>!r. r \<in> set (findroot mdata) \<and> connected mdata r x"
proof -
  let ?E = "edges mdata"
  from assms(1) have ac: "acyclic ?E" and sv: "single_valued (?E\<inverse>)"
    by (simp_all add: directed_forest_def)
  have roots: "set (findroot mdata) = (Domain ?E - {''world''}) - Range ?E"
    by (simp add: set_findroot Domain_edges Range_edges)
  from source_above [OF finite_edges ac x] obtain r
    where r: "r \<in> Domain ?E" "r \<notin> Range ?E" "(r, x) \<in> ?E\<^sup>*" by blast
  have "?E\<^sup>* \<subseteq> (?E \<union> ?E\<inverse>)\<^sup>*" by (rule rtrancl_mono) simp
  with r(3) have rx: "(r, x) \<in> (?E \<union> ?E\<inverse>)\<^sup>*" by (rule rev_subsetD)
  then have cr: "connected mdata r x" by (simp add: connected_def)
  with nw have "r \<noteq> ''world''" by blast
  with r roots cr have ex: "r \<in> set (findroot mdata) \<and> connected mdata r x" by simp
  show ?thesis
  proof (rule ex1I [of _ r])
    show "r \<in> set (findroot mdata) \<and> connected mdata r x" by (rule ex)
  next
    fix r' assume a: "r' \<in> set (findroot mdata) \<and> connected mdata r' x"
    from a roots have nr: "r' \<notin> Range ?E" by simp
    from a have cx: "(r', x) \<in> (?E \<union> ?E\<inverse>)\<^sup>*" by (simp add: connected_def)
    from source_unique [OF sv nr r(2) cx rx] show "r' = r" .
  qed
qed

lemma findroot_never_child:
  "distinct (findroot mdata)
   \<and> set (findroot mdata) \<subseteq> parent ` set (joints mdata) - child ` set (joints mdata)"
  unfolding set_findroot using distinct_findroot by blast

lemma ex_world_edges: "edges ex_world = {(''world'', ''A''), (''A'', ''AB'')}"
  by (simp add: edges_def ex_world_def ex_joint_def)

lemma ex_world_directed: "directed_forest ex_world"
proof -
  have "acyclic (edges ex_world)"
  proof (rule acyclicI_order [where f = "\<lambda>s. if s = ''world'' then 3 else 2 - length s"])
    fix a b assume "(a, b) \<in> edges ex_world"
    then show "(if b = ''world'' then 3 else 2 - length b) < (if a = ''world'' then 3 else 2 - length a)"
      unfolding ex_world_edges by auto
  qed
  moreover have "single_valued ((edges ex_world)\<inverse>)"
    unfolding ex_world_edges single_valued_def by auto
  ultimately show ?thesis by (simp add: directed_forest_def)
qed

text \<open>
  C2. The claim is what the docstring of \<^verbatim>\<open>findroot\<close> promises ("Link with no parent
  will be the root", and its doctest expects the root 'world' for a robot attached to the
  world), and the code breaks it: the chain world\<rightarrow>A, A\<rightarrow>AB is a forest of one component
  whose only link without a parent is 'world', and \<open>findroot\<close> returns no candidate at
  all, because line 362 skips the edge from the world and the second loop removes its
  child A.
\<close>

theorem findroot_world_chain:
  "directed_forest ex_world \<and> edges ex_world = {(''world'', ''A''), (''A'', ''AB'')}
   \<and> ''world'' \<notin> Range (edges ex_world) \<and> findroot ex_world = []"
proof -
  have "findroot ex_world = []" by (simp add: findroot_def ex_world_def ex_joint_def)
  moreover have "''world'' \<notin> Range (edges ex_world)" unfolding ex_world_edges by simp
  ultimately show ?thesis using ex_world_directed ex_world_edges by simp
qed

subsection \<open>The root of the emitted tree without a candidate\<close>

lemma convertchildren_no_children:
  "linkname \<notin> parent ` set (joints mdata) \<Longrightarrow> convertchildren (Suc d) M lm mdata linkname = Inr []"
proof -
  assume "linkname \<notin> parent ` set (joints mdata)"
  then have "filter (\<lambda>j. parent j = linkname) (joints mdata) = []"
    by (auto simp: filter_empty_conv)
  then show ?thesis by simp
qed

lemma write_no_candidate:
  assumes "findroot mdata = []" and "links mdata = l # ls"
  shows "VRMLWriter_write d M w mdata =
     (case convertchildren d M (load_links (linkmap w) (links mdata)) mdata ''waist'' of
        Inl e \<Rightarrow> Inl e
      | Inr ch \<Rightarrow>
          Inr (w\<lparr>linkmap := load_links (linkmap w) (links mdata), roots := []\<rparr>,
               NModel ((JointModel M)\<lparr>jname := ''waist'', jointType := ''fixed''\<rparr>) ''fixed''
                 (Some l) ch))"
proof -
  have sel: "(case links mdata of [] \<Rightarrow> Inl IndexError
              | rootlink # _ \<Rightarrow> Inr (''waist'', rootlink)) = Inr (''waist'', l)"
    using assms(2) by simp
  show ?thesis
    unfolding VRMLWriter_write_def Let_def assms(1) list.case sel
    by (simp split: sum.splits)
qed

lemma convertjointtype_fixed: "convertjointtype M (J_FIXED M) = Inr ''fixed''"
  by (simp add: convertjointtype_def)

text \<open>
  C3 (as amended). For every body for which root detection yields no candidate and that
  has at least one link, the root node of the emitted tree carries the first link of the
  body as its link record and a synthesized root joint whose name is the constant 'waist'
  (\<^verbatim>\<open>write\<close> takes no default root name from its caller) and whose type is 'fixed',
  the label that \<open>convertjointtype\<close> gives to the fixed type; its children are the tree
  built from the link name 'waist', which is empty when no joint has 'waist' as parent.
\<close>

theorem write_fallback_root:
  assumes "findroot mdata = []" and "links mdata = l # ls"
  shows "VRMLWriter_write d M w mdata =
     (case convertchildren d M (load_links (linkmap w) (links mdata)) mdata ''waist'' of
        Inl e \<Rightarrow> Inl e
      | Inr ch \<Rightarrow>
          Inr (w\<lparr>linkmap := load_links (linkmap w) (links mdata), roots := []\<rparr>,
               NModel ((JointModel M)\<lparr>jname := ''waist'', jointType := ''fixed''\<rparr>) ''fixed''
                 (Some l) ch))
     \<and> convertjointtype M (J_FIXED M) = Inr ''fixed''
     \<and> (''waist'' \<notin> parent ` set (joints mdata) \<longrightarrow>
          VRMLWriter_write (Suc d) M w mdata =
            Inr (w\<lparr>linkmap := load_links (linkmap w) (links mdata), roots := []\<rparr>,
                 NModel ((JointModel M)\<lparr>jname := ''waist'', jointType := ''fixed''\<rparr>) ''fixed''
                   (Some l) []))"
proof (intro conjI impI)
  show "VRMLWriter_write d M w mdata =
     (case convertchildren d M (load_links (linkmap w) (links mdata)) mdata ''waist'' of
        Inl e \<Rightarrow> Inl e
      | Inr ch \<Rightarrow>
          Inr (w\<lparr>linkmap := load_links (linkmap w) (links mdata), roots := []\<rparr>,
               NModel ((JointModel M)\<lparr>jname := ''waist'', jointType := ''fixed''\<rparr>) ''fixed''
                 (Some l) ch))"
    using assms by (rule write_no_candidate)
  show "convertjointtype M (J_FIXED M) = Inr ''fixed''" by (rule convertjointtype_fixed)
next
  assume "''waist'' \<notin> parent ` set (joints mdata)"
  then have "convertchildren (Suc d) M (load_links (linkmap w) (links mdata)) mdata ''waist''
                = Inr []"
    by (rule convertchildren_no_children)
  with write_no_candidate [OF assms, of "Suc d" M w]
  show "VRMLWriter_write (Suc d) M w mdata =
            Inr (w\<lparr>linkmap := load_links (linkmap w) (links mdata), roots := []\<rparr>,
                 NModel ((JointModel M)\<lparr>jname := ''waist'', jointType := ''fixed''\<rparr>) ''fixed''
                   (Some l) [])"
    by simp
qed

lemma findroot_ex_ab: "findroot ex_ab = []"
  by (simp add: findroot_def ex_ab_def ex_joint_def)

lemma links_ex_ab: "links ex_ab = ex_link ''A'' # [ex_link ''B'']"
  by (simp add: ex_ab_def)

lemma ex_ab_no_waist: "''waist'' \<notin> parent ` set (joints ex_ab)"
  by (simp add: ex_ab_def ex_joint_def)

theorem write_fallback_root_witness:
  "findroot ex_ab = [] \<and> links ex_ab = ex_link ''A'' # [ex_link ''B'']
   \<and> ''waist'' \<notin> parent ` set (joints ex_ab)
   \<and> VRMLWriter_write (Suc 999) ex_M VRMLWriter_init ex_ab =
       Inr (VRMLWriter_init\<lparr>linkmap := load_links (linkmap VRMLWriter_init) (links ex_ab),
                             roots := []\<rparr>,
            NModel ((JointModel ex_M)\<lparr>jname := ''waist'', jointType := ''fixed''\<rparr>) ''fixed''
              (Some (ex_link ''A'')) [])"
proof (intro conjI)
  show "findroot ex_ab = []" by (rule findroot_ex_ab)
  show "links ex_ab = ex_link ''A'' # [ex_link ''B'']" by (rule links_ex_ab)
  show "''waist'' \<notin> parent ` set (joints ex_ab)" by (rule ex_ab_no_waist)
  from write_fallback_root [OF findroot_ex_ab links_ex_ab, of 999 ex_M VRMLWriter_init,
         THEN conjunct2, THEN conjunct2, THEN mp, OF ex_ab_no_waist]
  show "VRMLWriter_write (Suc 999) ex_M VRMLWriter_init ex_ab =
       Inr (VRMLWriter_init\<lparr>linkmap := load_links (linkmap VRMLWriter_init) (links ex_ab),
                             roots := []\<rparr>,
            NModel ((JointModel ex_M)\<lparr>jname := ''waist'', jointType := ''fixed''\<rparr>) ''fixed''
              (Some (ex_link ''A'')) [])" .
qed

text \<open>
  C3 as stated fails: for the edges A\<rightarrow>B, B\<rightarrow>A the root joint is named 'waist' and the
  link of the root node is the link A; neither is a name such as 'base' given by the caller.
\<close>

theorem write_fallback_root_counterexample:
  "VRMLWriter_write 1000 ex_M VRMLWriter_init ex_ab =
       Inr (VRMLWriter_init\<lparr>linkmap := load_links (linkmap VRMLWriter_init) (links ex_ab),
                             roots := []\<rparr>,
            NModel ((JointModel ex_M)\<lparr>jname := ''waist'', jointType := ''fixed''\<rparr>) ''fixed''
              (Some (ex_link ''A'')) [])
   \<and> ''waist'' \<noteq> ''base'' \<and> lname (ex_link ''A'') \<noteq> ''base''"
proof (intro conjI)
  have c: "convertchildren (Suc 999) ex_M (load_links (linkmap VRMLWriter_init) (links ex_ab))
             ex_ab ''waist'' = Inr []"
    using ex_ab_no_waist by (rule convertchildren_no_children)
  have "VRMLWriter_write (Suc 999) ex_M VRMLWriter_init ex_ab =
       Inr (VRMLWriter_init\<lparr>linkmap := load_links (linkmap VRMLWriter_init) (links ex_ab),
                             roots := []\<rparr>,
            NModel ((JointModel ex_M)\<lparr>jname := ''waist'', jointType := ''fixed''\<rparr>) ''fixed''
              (Some (ex_link ''A'')) [])"
    unfolding write_no_candidate [OF findroot_ex_ab links_ex_ab] c by simp
  moreover have "Suc 999 = 1000" by simp
  ultimately show "VRMLWriter_write 1000 ex_M VRMLWriter_init ex_ab =
       Inr (VRMLWriter_init\<lparr>linkmap := load_links (linkmap VRMLWriter_init) (links ex_ab),
                             roots := []\<rparr>,
            NModel ((JointModel ex_M)\<lparr>jname := ''waist'', jointType := ''fixed''\<rparr>) ''fixed''
              (Some (ex_link ''A'')) [])"
    by (simp only:)
  show "''waist'' \<noteq> ''base''" by simp
  show "lname (ex_link ''A'') \<noteq> ''base''" by (simp add: ex_link_def)
qed

subsection \<open>Meshes read from the model loader\<close>

lemma length_triple_each: "length (triple_each xs) = 3 * length xs"
  by (induction xs) (simp_all add: triple_each_def)

lemma triple_each_Cons: "triple_each (x # xs) = x # x # x # triple_each xs"
  by (simp add: triple_each_def)

lemma rows_of_triple_each:
  "rows_of (length xs) 3 (triple_each xs) = map (\<lambda>i. [i, i, i]) xs"
proof (induction xs)
  case Nil
  show ?case by (simp add: triple_each_def)
next
  case (Cons x xs)
  then show ?case by (simp add: triple_each_Cons)
qed

lemma reshape3_triple_each: "reshape3 (triple_each xs) = Inr (map (\<lambda>i. [i, i, i]) xs)"
  by (simp add: reshape3_def reshape_def length_triple_each rows_of_triple_each)

lemma reshape3_dvd:
  "3 dvd length xs \<Longrightarrow> reshape3 xs = Inr (rows_of (length xs div 3) 3 xs)"
  by (simp add: reshape3_def reshape_def)

lemma reshape3_not_dvd: "\<not> 3 dvd length xs \<Longrightarrow> reshape3 xs = Inl ValueError"
  by (simp add: reshape3_def reshape_def dvd_div_eq_0_iff mod_eq_0_iff_dvd)
     (metis dvd_triv_right)

lemma concat_rows_of: "r * k = length xs \<Longrightarrow> concat (rows_of r k xs) = xs"
proof (induction r arbitrary: xs)
  case 0
  then show ?case by simp
next
  case (Suc r)
  from Suc.prems have "r * k = length (drop k xs)" by simp
  from Suc.IH [OF this] show ?case by simp
qed

lemma concat_reshape3: "reshape3 xs = Inr rows \<Longrightarrow> concat rows = xs"
  by (auto simp: reshape3_def reshape_def concat_rows_of split: if_splits)

lemma read_normals_per_vertex:
  assumes "3 dvd length (normals adata)" and "normalPerVertex adata"
    and "normalIndices adata = []"
  shows "read_normals adata =
           Inr (rows_of (length (normals adata) div 3) 3 (normals adata),
                map (\<lambda>i. [i, i, i]) (range0 (length (normals adata) div 3)))"
  using assms by (simp add: read_normals_def reshape3_dvd reshape3_triple_each)

lemma read_normals_total:
  assumes "3 dvd length (normals adata)"
    and "normalPerVertex adata \<longrightarrow> 3 dvd length (normalIndices adata)"
  shows "\<exists>nrm idx. read_normals adata = Inr (nrm, idx)"
  using assms by (simp add: read_normals_def reshape3_dvd reshape3_triple_each)

lemma read_mesh_result:
  assumes "3 dvd length (vertices sdata)" and "3 dvd length (triangles sdata)"
    and "py_index (hrpapperances r) (appearanceIndex sdata) = Inr adata"
    and "read_normals adata = Inr (nrm, idx)"
    and "py_index (r_materials r) (materialIndex adata) = Inr mat"
  shows "read_mesh M r sdata =
           Inr ((MeshData M)\<lparr>vertex := rows_of (length (vertices sdata) div 3) 3 (vertices sdata),
                  vertex_index := rows_of (length (triangles sdata) div 3) 3 (triangles sdata),
                  normal := Some nrm, normal_index := Some idx, mesh_material := Some mat\<rparr>)"
  using assms by (simp add: read_mesh_def reshape3_dvd)

text \<open>
  Without normal indices the two branches of \<^verbatim>\<open>readLink\<close> do the same: lines 111-116
  (normals per vertex) repeat lines 127-132 (normals per face), so the flag
  \<^verbatim>\<open>normalPerVertex\<close> has no effect on the normals and their index list.
\<close>

lemma read_normals_flag_ignored:
  "normalIndices adata = [] \<Longrightarrow>
     read_normals (adata\<lparr>normalPerVertex := True\<rparr>)
       = read_normals (adata\<lparr>normalPerVertex := False\<rparr>)"
  by (simp add: read_normals_def cong: sum.case_cong)

lemma ex_square_apps: "py_index (hrpapperances ex_reader) (appearanceIndex ex_square) = Inr ex_appearance"
  by (simp add: py_index_def ex_reader_def ex_square_def)

lemma ex_outofrange_apps:
  "py_index (hrpapperances ex_reader) (appearanceIndex ex_outofrange) = Inr ex_appearance"
  by (simp add: py_index_def ex_reader_def ex_outofrange_def)

lemma ex_reader_mat:
  "py_index (r_materials ex_reader) (materialIndex ex_appearance)
     = Inr \<lparr>mname = ''material-0'', ambient = 1, diffuse = [1, 0, 0, 1],
            specular = [0, 0, 0, 1], emission = [0, 0, 0, 1], shininess = 0,
            transparency = 0\<rparr>"
  by (simp add: py_index_def ex_reader_def ex_appearance_def ex_matinfo_def)

lemma ex_appearance_normals:
  "read_normals ex_appearance =
     Inr ([[0, 0, 1], [0, 0, 1], [0, 0, 1], [0, 0, 1]],
          [[0, 0, 0], [1, 1, 1], [2, 2, 2], [3, 3, 3]])"
proof -
  have n: "length (normals ex_appearance) = 12" by (simp add: ex_appearance_def)
  have "(12::nat) div 3 = Suc (Suc (Suc (Suc 0)))" by simp
  with n have d: "length (normals ex_appearance) div 3 = Suc (Suc (Suc (Suc 0)))" by simp
  have "3 dvd length (normals ex_appearance)" unfolding n by simp
  from read_normals_per_vertex [OF this] show ?thesis
    unfolding d by (simp add: ex_appearance_def range0_def)
qed

lemma read_mesh_ex_square:
  "read_mesh ex_M ex_reader ex_square =
     Inr ((MeshData ex_M)\<lparr>vertex := [[0, 0, 0], [1, 0, 0], [1, 1, 0], [0, 1, 0]],
            vertex_index := [[0, 1, 2], [0, 2, 3]],
            normal := Some [[0, 0, 1], [0, 0, 1], [0, 0, 1], [0, 0, 1]],
            normal_index := Some [[0, 0, 0], [1, 1, 1], [2, 2, 2], [3, 3, 3]],
            mesh_material := Some \<lparr>mname = ''material-0'', ambient = 1, diffuse = [1, 0, 0, 1],
              specular = [0, 0, 0, 1], emission = [0, 0, 0, 1], shininess = 0,
              transparency = 0\<rparr>\<rparr>)"
proof -
  have v: "length (vertices ex_square) = 12" and t: "length (triangles ex_square) = 6"
    by (simp_all add: ex_square_def)
  have dv: "length (vertices ex_square) div 3 = Suc (Suc (Suc (Suc 0)))"
    and dt: "length (triangles ex_square) div 3 = Suc (Suc 0)"
    unfolding v t by simp_all
  have "3 dvd length (vertices ex_square)" "3 dvd length (triangles ex_square)"
    unfolding v t by simp_all
  from read_mesh_result [OF this ex_square_apps ex_appearance_normals ex_reader_mat, of ex_M]
  show ?thesis unfolding dv dt by (simp add: ex_square_def)
qed

text \<open>
  C4. With one normal for each of 4 vertices, no normal indices and the triangles
  [[0,1,2],[0,2,3]], the normal index list should be the triangle index list, so that every
  corner of a triangle gets the normal of its vertex, as it does on the sibling path with
  explicit indices (line 109). The reader returns [[0,0,0],[1,1,1],[2,2,2],[3,3,3]]
  instead: one row for each normal, 4 rows for 2 triangles, the list that is right for
  normals per face.
\<close>

theorem read_mesh_implicit_normals_defect:
  "(case read_mesh ex_M ex_reader ex_square of
      Inl e \<Rightarrow> None
    | Inr md \<Rightarrow> Some (vertex_index md, normal_index md))
     = Some ([[0, 1, 2], [0, 2, 3]], Some [[0, 0, 0], [1, 1, 1], [2, 2, 2], [3, 3, 3]])
   \<and> normalPerVertex ex_appearance \<and> normalIndices ex_appearance = []
   \<and> [[0, 0, 0], [1, 1, 1], [2, 2, 2], [3, 3, 3]] \<noteq> [[0, 1, 2], [0, 2, 3 :: int]]"
  by (simp add: read_mesh_ex_square) (simp add: ex_appearance_def)

subsection \<open>Meshes read from a Collada document\<close>

lemma for_each_total:
  assumes "\<forall>x\<in>set xs. \<exists>y. f x = Inr y \<and> P x y"
  shows "\<exists>ys. for_each f xs = Inr ys \<and> length ys = length xs
            \<and> (\<forall>i<length xs. P (xs ! i) (ys ! i))"
  using assms
proof (induction xs)
  case Nil
  then show ?case by simp
next
  case (Cons x xs)
  from Cons.prems obtain y where y: "f x = Inr y" "P x y" by auto
  from Cons.prems have "\<forall>x\<in>set xs. \<exists>y. f x = Inr y \<and> P x y" by simp
  from Cons.IH [OF this] obtain ys where ys: "for_each f xs = Inr ys" "length ys = length xs"
    "\<forall>i<length xs. P (xs ! i) (ys ! i)" by blast
  have "\<forall>i<length (x # xs). P ((x # xs) ! i) ((y # ys) ! i)"
  proof (intro allI impI)
    fix i assume "i < length (x # xs)"
    then show "P ((x # xs) ! i) ((y # ys) ! i)" using y(2) ys(3) by (cases i) simp_all
  qed
  with y(1) ys(1,2) show ?case by simp
qed

lemma set_images_keeps:
  "vertex (set_images aj r prs sm) = vertex sm
   \<and> vertex_index (set_images aj r prs sm) = vertex_index sm"
  by (induction aj r prs sm rule: set_images.induct) (simp_all add: Let_def)

lemma lookup_material_missing:
  "k \<notin> Some ` dom (materials r) \<Longrightarrow> lookup_material r k = Inl KeyError"
  by (auto simp: lookup_material_def split: option.splits)

lemma lookup_material_error: "lookup_material r k = Inl e \<Longrightarrow> e = KeyError"
  by (auto simp: lookup_material_def split: option.splits)

lemma convert_primitive_total:
  assumes "p_normal p = Some n" and "texcoordset p = [] \<or> texcoord_indexset p \<noteq> []"
  shows "\<exists>sm. convert_primitive M aj r p = Inr sm
           \<and> vertex sm = p_vertex p \<and> vertex_index sm = p_vertex_index p
           \<and> (p_material p \<notin> Some ` dom (materials r) \<longrightarrow> image sm = image (MeshData M))"
proof -
  define sm1 where "sm1 = (if asize n > 0
      then (MeshData M)\<lparr>vertex := p_vertex p, vertex_index := p_vertex_index p,
             normal := Some n, normal_index := p_normal_index p\<rparr>
      else (MeshData M)\<lparr>vertex := p_vertex p, vertex_index := p_vertex_index p\<rparr>)"
  have sm1: "vertex sm1 = p_vertex p" "vertex_index sm1 = p_vertex_index p"
    "image sm1 = image (MeshData M)"
    by (simp_all add: sm1_def)
  obtain sm2 where sm2: "(if length (texcoordset p) > 0 then
                 (case py_index (texcoordset p) 0 of
                    Inl e \<Rightarrow> Inl e
                  | Inr uv \<Rightarrow>
                      (case py_index (texcoord_indexset p) 0 of
                         Inl e \<Rightarrow> Inl e
                       | Inr uvi \<Rightarrow> Inr (sm1\<lparr>uvmap := Some uv, uvmap_index := Some uvi\<rparr>)))
               else Inr sm1) = Inr sm2"
    and k: "vertex sm2 = p_vertex p" "vertex_index sm2 = p_vertex_index p"
      "image sm2 = image (MeshData M)"
  proof (cases "texcoordset p = []")
    case True
    with sm1 that [of sm1] show ?thesis by simp
  next
    case False
    with assms(2) have "texcoord_indexset p \<noteq> []" by simp
    with False sm1
      that [of "sm1\<lparr>uvmap := Some (texcoordset p ! 0), uvmap_index := Some (texcoord_indexset p ! 0)\<rparr>"]
    show ?thesis by (simp add: py_index_def)
  qed
  have eq: "convert_primitive M aj r p =
              (case lookup_material r (p_material p) of
                 Inl KeyError \<Rightarrow> Inr sm2
               | Inl e \<Rightarrow> Inl e
               | Inr prs \<Rightarrow> Inr (set_images aj r prs sm2))"
    unfolding convert_primitive_def Let_def assms(1) option.case sm1_def [symmetric] sm2
    by simp
  show ?thesis
  proof (cases "lookup_material r (p_material p)")
    case (Inl e)
    then have "e = KeyError" by (rule lookup_material_error)
    with Inl eq k show ?thesis by simp
  next
    case (Inr prs)
    then have "p_material p \<in> Some ` dom (materials r)"
      by (auto simp: lookup_material_def split: option.splits)
    with Inr eq k show ?thesis by (simp add: set_images_keeps)
  qed
qed

subsection \<open>Indices out of bounds\<close>

text \<open>
  C6 (as amended). Mesh construction checks no index against the length of the vertex
  array. For every geometry input that is otherwise well formed (the lengths of the flat
  arrays are multiples of 3 and the appearance and material are found; for a primitive of a
  Collada document, its normals are an array and its texture coordinate sets have their
  index sets), construction succeeds whatever the values of the triangle vertex indices
  are, also when one is greater than or equal to the number of vertices, and the mesh holds
  the index list as it was given: it is neither clamped nor truncated, and there is no
  IndexBoundsError.
\<close>

theorem no_index_bounds_check:
  "(3 dvd length (vertices sdata) \<and> 3 dvd length (triangles sdata)
      \<and> py_index (hrpapperances r) (appearanceIndex sdata) = Inr adata
      \<and> 3 dvd length (normals adata)
      \<and> (normalPerVertex adata \<longrightarrow> 3 dvd length (normalIndices adata))
      \<and> py_index (r_materials r) (materialIndex adata) = Inr mat
    \<longrightarrow> (\<exists>md. read_mesh M r sdata = Inr md \<and> concat (vertex_index md) = triangles sdata))
   \<and> (p_normal p = Some n \<and> (texcoordset p = [] \<or> texcoord_indexset p \<noteq> [])
    \<longrightarrow> (\<exists>sm. convert_primitive M aj cr p = Inr sm \<and> vertex_index sm = p_vertex_index p))"
proof (intro conjI impI)
  assume a: "3 dvd length (vertices sdata) \<and> 3 dvd length (triangles sdata)
      \<and> py_index (hrpapperances r) (appearanceIndex sdata) = Inr adata
      \<and> 3 dvd length (normals adata)
      \<and> (normalPerVertex adata \<longrightarrow> 3 dvd length (normalIndices adata))
      \<and> py_index (r_materials r) (materialIndex adata) = Inr mat"
  then have v: "3 dvd length (vertices sdata)" and t: "3 dvd length (triangles sdata)"
    and ap: "py_index (hrpapperances r) (appearanceIndex sdata) = Inr adata"
    and n: "3 dvd length (normals adata)"
    and ni: "normalPerVertex adata \<longrightarrow> 3 dvd length (normalIndices adata)"
    and m: "py_index (r_materials r) (materialIndex adata) = Inr mat"
    by simp_all
  from read_normals_total [OF n ni] obtain nrm idx
    where "read_normals adata = Inr (nrm, idx)" by blast
  from read_mesh_result [OF v t ap this m, of M]
  have "read_mesh M r sdata =
           Inr ((MeshData M)\<lparr>vertex := rows_of (length (vertices sdata) div 3) 3 (vertices sdata),
                  vertex_index := rows_of (length (triangles sdata) div 3) 3 (triangles sdata),
                  normal := Some nrm, normal_index := Some idx, mesh_material := Some mat\<rparr>)" .
  moreover from t have "length (triangles sdata) div 3 * 3 = length (triangles sdata)" by simp
  then have "concat (rows_of (length (triangles sdata) div 3) 3 (triangles sdata))
               = triangles sdata"
    by (rule concat_rows_of)
  ultimately show "\<exists>md. read_mesh M r sdata = Inr md \<and> concat (vertex_index md) = triangles sdata"
    by simp
next
  assume "p_normal p = Some n \<and> (texcoordset p = [] \<or> texcoord_indexset p \<noteq> [])"
  then have "p_normal p = Some n" and "texcoordset p = [] \<or> texcoord_indexset p \<noteq> []"
    by simp_all
  from convert_primitive_total [OF this, of M aj cr]
  show "\<exists>sm. convert_primitive M aj cr p = Inr sm \<and> vertex_index sm = p_vertex_index p"
    by blast
qed

lemma ex_outofrange_lengths:
  "length (vertices ex_outofrange) = 9" "length (triangles ex_outofrange) = 3"
  by (simp_all add: ex_outofrange_def)

lemma ex_creader_steel: "Some ''steel'' \<notin> Some ` dom (materials ex_creader)"
  by (simp add: ex_creader_def)

theorem no_index_bounds_check_witness:
  "3 dvd length (vertices ex_outofrange) \<and> 3 dvd length (triangles ex_outofrange)
   \<and> 3 dvd length (normals ex_appearance)
   \<and> normalPerVertex ex_appearance \<and> 3 dvd length (normalIndices ex_appearance)
   \<and> triangles ex_outofrange = [0, 1, 7]
   \<and> (\<exists>md. read_mesh ex_M ex_reader ex_outofrange = Inr md
         \<and> concat (vertex_index md) = triangles ex_outofrange)
   \<and> p_normal (ex_primitive\<lparr>p_vertex_index := [[0, 1, 7]]\<rparr>) = Some [[0, 0, 1]]
   \<and> texcoordset (ex_primitive\<lparr>p_vertex_index := [[0, 1, 7]]\<rparr>) = []
   \<and> (\<exists>sm. convert_primitive ex_M ex_join ex_creader (ex_primitive\<lparr>p_vertex_index := [[0, 1, 7]]\<rparr>)
               = Inr sm
         \<and> vertex_index sm = [[0, 1, 7]])"
proof -
  have h: "3 dvd length (vertices ex_outofrange)" "3 dvd length (triangles ex_outofrange)"
    unfolding ex_outofrange_lengths by simp_all
  have "length (normals ex_appearance) = 12" by (simp add: ex_appearance_def)
  then have a1: "3 dvd length (normals ex_appearance)" by simp
  have a3: "normalPerVertex ex_appearance" "3 dvd length (normalIndices ex_appearance)"
    by (simp_all add: ex_appearance_def)
  then have a2: "normalPerVertex ex_appearance \<longrightarrow> 3 dvd length (normalIndices ex_appearance)"
    by simp
  have tr: "triangles ex_outofrange = [0, 1, 7]" by (simp add: ex_outofrange_def)
  have p1: "p_normal (ex_primitive\<lparr>p_vertex_index := [[0, 1, 7]]\<rparr>) = Some [[0, 0, 1]]"
    and p2: "texcoordset (ex_primitive\<lparr>p_vertex_index := [[0, 1, 7]]\<rparr>) = []"
    and p3: "p_vertex_index (ex_primitive\<lparr>p_vertex_index := [[0, 1, 7]]\<rparr>) = [[0, 1, 7]]"
    by (simp_all add: ex_primitive_def)
  note t = no_index_bounds_check [where sdata = ex_outofrange and r = ex_reader
             and adata = ex_appearance and M = ex_M and aj = ex_join and cr = ex_creader
             and p = "ex_primitive\<lparr>p_vertex_index := [[0, 1, 7]]\<rparr>" and n = "[[0, 0, 1]]"]
  from t h ex_outofrange_apps a1 a2 ex_reader_mat
  have r1: "\<exists>md. read_mesh ex_M ex_reader ex_outofrange = Inr md
         \<and> concat (vertex_index md) = triangles ex_outofrange"
    by blast
  from t p1 p2
  have "\<exists>sm. convert_primitive ex_M ex_join ex_creader (ex_primitive\<lparr>p_vertex_index := [[0, 1, 7]]\<rparr>)
               = Inr sm
         \<and> vertex_index sm = p_vertex_index (ex_primitive\<lparr>p_vertex_index := [[0, 1, 7]]\<rparr>)"
    by blast
  then have r2: "\<exists>sm. convert_primitive ex_M ex_join ex_creader (ex_primitive\<lparr>p_vertex_index := [[0, 1, 7]]\<rparr>)
               = Inr sm
         \<and> vertex_index sm = [[0, 1, 7]]"
    unfolding p3 .
  from h a1 a3 tr r1 p1 p2 r2 show ?thesis by blast
qed

text \<open>
  C6 as stated fails: a triangle with the indices 0, 1, 7 on three vertices is read without
  an error, and the mesh keeps the index 7.
\<close>

lemma read_mesh_ex_outofrange:
  "read_mesh ex_M ex_reader ex_outofrange =
     Inr ((MeshData ex_M)\<lparr>vertex := [[0, 0, 0], [1, 0, 0], [1, 1, 0]],
            vertex_index := [[0, 1, 7]],
            normal := Some [[0, 0, 1], [0, 0, 1], [0, 0, 1], [0, 0, 1]],
            normal_index := Some [[0, 0, 0], [1, 1, 1], [2, 2, 2], [3, 3, 3]],
            mesh_material := Some \<lparr>mname = ''material-0'', ambient = 1, diffuse = [1, 0, 0, 1],
              specular = [0, 0, 0, 1], emission = [0, 0, 0, 1], shininess = 0,
              transparency = 0\<rparr>\<rparr>)"
proof -
  have dv: "length (vertices ex_outofrange) div 3 = Suc (Suc (Suc 0))"
    and dt: "length (triangles ex_outofrange) div 3 = Suc 0"
    unfolding ex_outofrange_lengths by simp_all
  have "3 dvd length (vertices ex_outofrange)" "3 dvd length (triangles ex_outofrange)"
    unfolding ex_outofrange_lengths by simp_all
  from read_mesh_result [OF this ex_outofrange_apps ex_appearance_normals ex_reader_mat, of ex_M]
  show ?thesis unfolding dv dt by (simp add: ex_outofrange_def)
qed

theorem no_index_bounds_check_counterexample:
  "(case read_mesh ex_M ex_reader ex_outofrange of
      Inl e \<Rightarrow> Inl e
    | Inr md \<Rightarrow> Inr (length (vertex md), vertex_index md))
     = Inr (3, [[0, 1, 7]])
   \<and> read_mesh ex_M ex_reader ex_outofrange \<noteq> Inl IndexBoundsError"
  by (simp add: read_mesh_ex_outofrange)

subsection \<open>A material that is not in the table\<close>




subsection \<open>Meshes written to a Collada document\<close>

lemma truth_value_many: "1 < asize n \<Longrightarrow> truth_value (Some n) = Inl ValueError"
  by (simp add: truth_value_def)

lemma truth_value_True: "truth_value a = Inr True \<Longrightarrow> \<exists>n. a = Some n \<and> asize n = 1"
  by (auto simp: truth_value_def split: option.splits if_splits)

lemma truth_value_Inr:
  "truth_value a = Inr b \<Longrightarrow> a = None \<or> (\<exists>n. a = Some n \<and> asize n \<le> 1)"
  by (auto simp: truth_value_def split: option.splits if_splits)

lemma convert_mesh_many:
  "normal m = Some n \<Longrightarrow> 1 < asize n \<Longrightarrow> convert_mesh uuid w m = Inl ValueError"
  by (simp add: convert_mesh_def Let_def truth_value_many)

lemma convert_mesh_Inr:
  assumes "convert_mesh uuid w m = Inr res"
  shows "normal m = None \<or> (\<exists>n. normal m = Some n \<and> asize n \<le> 1)"
proof -
  from assms obtain b where "truth_value (normal m) = Inr b"
    by (cases "truth_value (normal m)") (simp_all add: convert_mesh_def Let_def)
  then show ?thesis by (rule truth_value_Inr)
qed

lemma convert_mesh_merged:
  assumes "convert_mesh uuid w m = Inr (w', WGeometryNode g)"
    and "length (geom_sources g) = 2"
  shows "\<exists>n. normal m = Some n \<and> asize n = 1"
proof -
  from assms(1) obtain b where b: "truth_value (normal m) = Inr b"
    by (cases "truth_value (normal m)") (simp_all add: convert_mesh_def Let_def)
  have "b"
  proof (rule ccontr)
    assume "\<not> b"
    with assms(1) b have "length (geom_sources g) = 1"
      by (auto simp: convert_mesh_def Let_def)
    with assms(2) show False by simp
  qed
  with b have "truth_value (normal m) = Inr True" by simp
  then show ?thesis by (rule truth_value_True)
qed

lemma w_convertchild_mesh:
  "w_convertchild uuid w (Some (MeshDataNode m)) =
     (case convert_mesh uuid w m of Inl e \<Rightarrow> Inl e | Inr (w', node) \<Rightarrow> Inr (w', Some node))"
  by simp

text \<open>
  C10. Writing a mesh whose normal array has more than one element fails with ValueError,
  because \<^verbatim>\<open>if m.normal:\<close> evaluates the array as a boolean. So the conversion of a
  mesh returns only when the normal buffer is absent or has at most one element, and the
  branch that merges the normals (the geometry then has two sources) is taken only when the
  normal array has exactly one element.
\<close>

theorem normals_truth_value:
  "(normal m = Some n \<and> 1 < asize n
      \<longrightarrow> w_convertchild uuid w (Some (MeshDataNode m)) = Inl ValueError)
   \<and> (w_convertchild uuid w (Some (MeshDataNode m)) = Inr res
      \<longrightarrow> normal m = None \<or> (\<exists>k. normal m = Some k \<and> asize k \<le> 1))
   \<and> (w_convertchild uuid w (Some (MeshDataNode m)) = Inr (w', Some (WGeometryNode g))
        \<and> length (geom_sources g) = 2
      \<longrightarrow> (\<exists>k. normal m = Some k \<and> asize k = 1))"
proof (intro conjI impI)
  assume "normal m = Some n \<and> 1 < asize n"
  then have "convert_mesh uuid w m = Inl ValueError" by (simp add: convert_mesh_many)
  then show "w_convertchild uuid w (Some (MeshDataNode m)) = Inl ValueError" by simp
next
  assume "w_convertchild uuid w (Some (MeshDataNode m)) = Inr res"
  then obtain r where "convert_mesh uuid w m = Inr r"
    by (cases "convert_mesh uuid w m") simp_all
  then show "normal m = None \<or> (\<exists>k. normal m = Some k \<and> asize k \<le> 1)"
    by (rule convert_mesh_Inr)
next
  assume a: "w_convertchild uuid w (Some (MeshDataNode m)) = Inr (w', Some (WGeometryNode g))
        \<and> length (geom_sources g) = 2"
  then have "convert_mesh uuid w m = Inr (w', WGeometryNode g)"
    by (cases "convert_mesh uuid w m") auto
  with a show "\<exists>k. normal m = Some k \<and> asize k = 1"
    by (auto dest: convert_mesh_merged)
qed

lemma ex_mesh_normal: "normal ex_mesh = Some [[0, 0, 1], [0, 0, 1], [0, 0, 1]]"
  by (simp add: ex_mesh_def)

lemma asize_ex_mesh_normal: "1 < asize [[0, 0, 1], [0, 0, 1], [0, 0, 1 :: real]]"
  by (simp add: asize_def)

lemma convert_mesh_ex_mesh1:
  "convert_mesh ex_uuid ex_cwriter ex_mesh1 =
     Inr (\<lparr>geometries =
             [\<lparr>geom_id = ''geometry0'', geom_name = ''shape-0'',
               geom_sources =
                 [\<lparr>source_id = ''shape-0-vertex'', source_data = [0, 0, 0, 1, 0, 0, 0, 1, 0],
                   components = [''X'', ''Y'', ''Z'']\<rparr>,
                  \<lparr>source_id = ''shape-0-normal'', source_data = [1],
                   components = [''X'', ''Y'', ''Z'']\<rparr>],
               geom_primitives =
                 [\<lparr>ts_indices = [0, 0, 1, 0, 2, 0],
                   ts_inputs = [(0, ''VERTEX'', ''#shape-0-vertex''),
                                (1, ''NORMAL'', ''#shape-0-normal'')],
                   ts_material = ''materialref''\<rparr>]\<rparr>],
           drawn = 1\<rparr>,
          WGeometryNode
            \<lparr>geom_id = ''geometry0'', geom_name = ''shape-0'',
             geom_sources =
               [\<lparr>source_id = ''shape-0-vertex'', source_data = [0, 0, 0, 1, 0, 0, 0, 1, 0],
                 components = [''X'', ''Y'', ''Z'']\<rparr>,
                \<lparr>source_id = ''shape-0-normal'', source_data = [1],
                 components = [''X'', ''Y'', ''Z'']\<rparr>],
             geom_primitives =
               [\<lparr>ts_indices = [0, 0, 1, 0, 2, 0],
                 ts_inputs = [(0, ''VERTEX'', ''#shape-0-vertex''),
                              (1, ''NORMAL'', ''#shape-0-normal'')],
                 ts_material = ''materialref''\<rparr>]\<rparr>)"
  by (simp add: convert_mesh_def ex_mesh1_def ex_M_def ex_uuid_def ex_cwriter_def
        truth_value_def asize_def vstack_def Let_def)

theorem normals_truth_value_witness:
  "normal ex_mesh = Some [[0, 0, 1], [0, 0, 1], [0, 0, 1]]
   \<and> 1 < asize [[0, 0, 1], [0, 0, 1], [0, 0, 1 :: real]]
   \<and> w_convertchild ex_uuid ex_cwriter (Some (MeshDataNode ex_mesh)) = Inl ValueError
   \<and> (\<exists>w' g. w_convertchild ex_uuid ex_cwriter (Some (MeshDataNode ex_mesh1))
                 = Inr (w', Some (WGeometryNode g))
          \<and> length (geom_sources g) = 2)
   \<and> (\<exists>k. normal ex_mesh1 = Some k \<and> asize k = 1)"
proof -
  note t1 = normals_truth_value [where m = ex_mesh and n = "[[0, 0, 1], [0, 0, 1], [0, 0, 1]]"
              and uuid = ex_uuid and w = ex_cwriter]
  from t1 ex_mesh_normal asize_ex_mesh_normal
  have e: "w_convertchild ex_uuid ex_cwriter (Some (MeshDataNode ex_mesh)) = Inl ValueError"
    by blast
  obtain w' g where r: "w_convertchild ex_uuid ex_cwriter (Some (MeshDataNode ex_mesh1))
                 = Inr (w', Some (WGeometryNode g))"
    and l: "length (geom_sources g) = 2"
    unfolding w_convertchild_mesh convert_mesh_ex_mesh1 by simp
  from normals_truth_value [where m = ex_mesh1 and uuid = ex_uuid and w = ex_cwriter
         and w' = w' and g = g] r l
  have k: "\<exists>k. normal ex_mesh1 = Some k \<and> asize k = 1" by blast
  from r l have "\<exists>w' g. w_convertchild ex_uuid ex_cwriter (Some (MeshDataNode ex_mesh1))
                 = Inr (w', Some (WGeometryNode g))
          \<and> length (geom_sources g) = 2"
    by blast
  with ex_mesh_normal asize_ex_mesh_normal e k show ?thesis by blast
qed

text \<open>
  C8. The writer is meant to emit one index stream of pairs of a position index and a normal
  index for a mesh with normals. On a mesh with one normal for each of its three vertices,
  with the position indices [[0,1,2]] and the normal indices [[0,1,2]], it raises ValueError
  instead (the test \<^verbatim>\<open>if m.normal:\<close> of line 132) and emits no stream; the stream is
  built only for a normal array of one element, as \<open>convert_mesh_ex_mesh1\<close> shows.
\<close>

theorem convertchild_mesh_normals_fail:
  "vertex_index ex_mesh = [[0, 1, 2]] \<and> normal_index ex_mesh = Some [[0, 1, 2]]
   \<and> normal ex_mesh = Some [[0, 0, 1], [0, 0, 1], [0, 0, 1]]
   \<and> w_convertchild ex_uuid ex_cwriter (Some (MeshDataNode ex_mesh)) = Inl ValueError"
proof -
  from ex_mesh_normal asize_ex_mesh_normal
  have "convert_mesh ex_uuid ex_cwriter ex_mesh = Inl ValueError"
    by (rule convert_mesh_many)
  then have "w_convertchild ex_uuid ex_cwriter (Some (MeshDataNode ex_mesh)) = Inl ValueError"
    by simp
  moreover have "vertex_index ex_mesh = [[0, 1, 2]]" "normal_index ex_mesh = Some [[0, 1, 2]]"
    by (simp_all add: ex_mesh_def)
  ultimately show ?thesis using ex_mesh_normal by blast
qed

subsection \<open>The tree build and links that are missing\<close>

lemma for_each_Inr_mono:
  assumes "for_each f xs = Inr ys" and "\<And>x y. x \<in> set xs \<Longrightarrow> f x = Inr y \<Longrightarrow> g x = Inr y"
  shows "for_each g xs = Inr ys"
  using assms
proof (induction xs arbitrary: ys)
  case Nil
  then show ?case by simp
next
  case (Cons x xs)
  from Cons.prems(1) obtain y ys' where y: "f x = Inr y" and ys': "for_each f xs = Inr ys'"
    and eq: "ys = y # ys'"
    by (auto split: sum.splits)
  from Cons.prems(2) [of x y] y have gx: "g x = Inr y" by simp
  have "for_each g xs = Inr ys'"
    using ys' Cons.prems(2) by (intro Cons.IH) simp_all
  with gx eq show ?case by simp
qed

lemma convertchildren_mono:
  "convertchildren d M lm mdata x = Inr ns \<Longrightarrow> convertchildren (d + k) M lm mdata x = Inr ns"
proof (induction d arbitrary: x ns)
  case 0
  then show ?case by simp
next
  case (Suc d)
  let ?f = "\<lambda>d cjoint.
          case convertjointtype M (jointType cjoint) of
            Inl e \<Rightarrow> Inl e
          | Inr t \<Rightarrow>
              (case convertchildren d M lm mdata (child cjoint) of
                 Inl e \<Rightarrow> Inl e
               | Inr ch \<Rightarrow> Inr (NModel cjoint t (lm (child cjoint)) ch))"
  from Suc.prems have a: "for_each (?f d) (findchildren mdata x) = Inr ns" by simp
  have "for_each (?f (d + k)) (findchildren mdata x) = Inr ns"
  proof (rule for_each_Inr_mono [OF a])
    fix j y assume "?f d j = Inr y"
    then obtain t ch where t: "convertjointtype M (jointType j) = Inr t"
      and ch: "convertchildren d M lm mdata (child j) = Inr ch"
      and y: "y = NModel j t (lm (child j)) ch"
      by (auto split: sum.splits)
    from Suc.IH [OF ch] t y show "?f (d + k) j = Inr y" by simp
  qed
  then show ?case by simp
qed

lemma convertchildren_uniform_depth:
  assumes "\<forall>j\<in>set js. \<exists>d ns. convertchildren d M lm mdata (child j) = Inr ns"
  shows "\<exists>d. \<forall>j\<in>set js. \<exists>ns. convertchildren d M lm mdata (child j) = Inr ns"
  using assms
proof (induction js)
  case Nil
  then show ?case by simp
next
  case (Cons j js)
  from Cons.prems obtain d1 ns1 where d1: "convertchildren d1 M lm mdata (child j) = Inr ns1"
    by auto
  from Cons.prems have "\<forall>j\<in>set js. \<exists>d ns. convertchildren d M lm mdata (child j) = Inr ns"
    by simp
  from Cons.IH [OF this] obtain d2
    where d2: "\<forall>j\<in>set js. \<exists>ns. convertchildren d2 M lm mdata (child j) = Inr ns" by blast
  have "\<forall>j'\<in>set (j # js). \<exists>ns. convertchildren (d1 + d2) M lm mdata (child j') = Inr ns"
  proof
    fix j' assume "j' \<in> set (j # js)"
    then consider "j' = j" | "j' \<in> set js" by auto
    then show "\<exists>ns. convertchildren (d1 + d2) M lm mdata (child j') = Inr ns"
    proof cases
      case 1
      with convertchildren_mono [OF d1, of d2] show ?thesis by blast
    next
      case 2
      with d2 obtain ns where "convertchildren d2 M lm mdata (child j') = Inr ns" by blast
      from convertchildren_mono [OF this, of d1] show ?thesis by (simp add: add.commute)
    qed
  qed
  then show ?case by blast
qed

text \<open>
  On a body without a cycle whose joint types are all supported, the tree build returns
  when the recursion limit allows enough depth.
\<close>

lemma convertchildren_total:
  assumes ac: "acyclic (edges mdata)" and sup: "supported_types M mdata"
  shows "\<exists>d ns. convertchildren d M lm mdata x = Inr ns"
proof -
  have wf: "wf ((edges mdata)\<inverse>)"
    using finite_edges ac by (rule finite_acyclic_wf_converse)
  show ?thesis
  proof (induction x rule: wf_induct_rule [OF wf])
    case (1 x)
    have "\<forall>j\<in>set (findchildren mdata x). \<exists>d ns. convertchildren d M lm mdata (child j) = Inr ns"
    proof
      fix j assume j: "j \<in> set (findchildren mdata x)"
      then have "(x, child j) \<in> edges mdata" by (auto simp: edges_def)
      then have "(child j, x) \<in> (edges mdata)\<inverse>" by simp
      then show "\<exists>d ns. convertchildren d M lm mdata (child j) = Inr ns" by (rule 1)
    qed
    from convertchildren_uniform_depth [OF this] obtain d
      where d: "\<forall>j\<in>set (findchildren mdata x). \<exists>ns. convertchildren d M lm mdata (child j) = Inr ns"
      by blast
    let ?f = "\<lambda>cjoint.
          case convertjointtype M (jointType cjoint) of
            Inl e \<Rightarrow> Inl e
          | Inr t \<Rightarrow>
              (case convertchildren d M lm mdata (child cjoint) of
                 Inl e \<Rightarrow> Inl e
               | Inr ch \<Rightarrow> Inr (NModel cjoint t (lm (child cjoint)) ch))"
    have "\<forall>j\<in>set (findchildren mdata x). \<exists>y. ?f j = Inr y \<and> True"
    proof
      fix j assume j: "j \<in> set (findchildren mdata x)"
      with sup have "jointType j \<in> {J_FIXED M, J_REVOLUTE M, J_PRISMATIC M, J_SCREW M}"
        by (auto simp: supported_types_def)
      from convertjointtype_supported [OF this] obtain l
        where l: "convertjointtype M (jointType j) = Inr l" ..
      from d j obtain ns where "convertchildren d M lm mdata (child j) = Inr ns" by blast
      with l show "\<exists>y. ?f j = Inr y \<and> True" by simp
    qed
    from for_each_total [OF this] obtain ys
      where "for_each ?f (findchildren mdata x) = Inr ys" by blast
    then have "convertchildren (Suc d) M lm mdata x = Inr ys" by simp
    then show ?case by blast
  qed
qed

lemma convertchildren_Inr_node:
  assumes "convertchildren d M lm mdata x = Inr nodes" and "j \<in> set (joints mdata)"
    and "parent j = x"
  shows "\<exists>n\<in>set nodes. n_joint n = j \<and> n_link n = lm (child j)
           \<and> (\<exists>d'. d = Suc d' \<and> convertchildren d' M lm mdata (child j) = Inr (n_children n))"
proof (cases d)
  case 0
  with assms(1) show ?thesis by simp
next
  case (Suc d')
  let ?f = "\<lambda>cjoint.
          case convertjointtype M (jointType cjoint) of
            Inl e \<Rightarrow> Inl e
          | Inr t \<Rightarrow>
              (case convertchildren d' M lm mdata (child cjoint) of
                 Inl e \<Rightarrow> Inl e
               | Inr ch \<Rightarrow> Inr (NModel cjoint t (lm (child cjoint)) ch))"
  from assms(1) Suc have fe: "for_each ?f (findchildren mdata x) = Inr nodes" by simp
  from for_each_Inr [OF fe] have len: "length nodes = length (findchildren mdata x)"
    and nth: "\<forall>i<length (findchildren mdata x). ?f (findchildren mdata x ! i) = Inr (nodes ! i)"
    by simp_all
  from assms(2,3) have "j \<in> set (findchildren mdata x)" by simp
  then obtain i where i: "i < length (findchildren mdata x)" and ji: "findchildren mdata x ! i = j"
    unfolding in_set_conv_nth by blast
  from nth i have "?f (findchildren mdata x ! i) = Inr (nodes ! i)" by blast
  then have fj: "?f j = Inr (nodes ! i)" unfolding ji .
  then obtain t ch where ch: "convertchildren d' M lm mdata (child j) = Inr ch"
    and nd: "NModel j t (lm (child j)) ch = nodes ! i"
    by (auto split: sum.splits)
  from nd [symmetric] ch have props: "n_joint (nodes ! i) = j" "n_link (nodes ! i) = lm (child j)"
    "convertchildren d' M lm mdata (child j) = Inr (n_children (nodes ! i))"
    by simp_all
  from i len have "nodes ! i \<in> set nodes" by simp
  then show ?thesis using Suc props by (intro bexI [of _ "nodes ! i"]) simp_all
qed

lemma load_links_other: "c \<notin> lname ` set ls \<Longrightarrow> load_links lm ls c = lm c"
  by (induction ls arbitrary: lm) simp_all

text \<open>
  C5 (as amended). For every body with a joint whose child link name is not among the links
  of the body, the tree build never raises a StructuralError. When it returns for the
  parent of that joint, it has emitted the node of the joint and has gone on to build the
  subtree of the missing child; the node carries the link record that the link map of the
  writer held under that name before the links of the body were loaded
  (\<^verbatim>\<open>self._linkmap\<close> is never cleared), and no link record when it held none, as for
  a fresh writer. The build does return, at a recursion limit that allows enough depth,
  when the body has no cycle and only supported joint types.
\<close>

theorem convertchildren_missing_link:
  assumes "j \<in> set (joints mdata)" and "child j \<notin> lname ` set (links mdata)"
  shows "convertchildren d M (load_links prior (links mdata)) mdata x \<noteq> Inl StructuralError
     \<and> (convertchildren d M (load_links prior (links mdata)) mdata (parent j) = Inr nodes
          \<longrightarrow> (\<exists>n\<in>set nodes. n_joint n = j \<and> n_link n = prior (child j)
                 \<and> (\<exists>d'. d = Suc d'
                       \<and> convertchildren d' M (load_links prior (links mdata)) mdata (child j)
                           = Inr (n_children n))))
     \<and> (acyclic (edges mdata) \<and> supported_types M mdata
          \<longrightarrow> (\<exists>d' ns. convertchildren d' M (load_links prior (links mdata)) mdata (parent j)
                           = Inr ns
                 \<and> (\<exists>n\<in>set ns. n_joint n = j \<and> n_link n = prior (child j))))"
proof (intro conjI impI)
  let ?lm = "load_links prior (links mdata)"
  have none: "?lm (child j) = prior (child j)" using assms(2) by (rule load_links_other)
  show "convertchildren d M ?lm mdata x \<noteq> Inl StructuralError"
    using convertchildren_errors [of d M ?lm mdata x StructuralError] by auto
  {
    assume "convertchildren d M ?lm mdata (parent j) = Inr nodes"
    from convertchildren_Inr_node [OF this assms(1) refl]
    show "\<exists>n\<in>set nodes. n_joint n = j \<and> n_link n = prior (child j)
                 \<and> (\<exists>d'. d = Suc d'
                       \<and> convertchildren d' M ?lm mdata (child j) = Inr (n_children n))"
      unfolding none .
  }
  {
    assume "acyclic (edges mdata) \<and> supported_types M mdata"
    then have "acyclic (edges mdata)" and "supported_types M mdata" by simp_all
    from convertchildren_total [OF this, of ?lm "parent j"] obtain d' ns
      where r: "convertchildren d' M ?lm mdata (parent j) = Inr ns" by blast
    from convertchildren_Inr_node [OF r assms(1) refl]
    have "\<exists>n\<in>set ns. n_joint n = j \<and> n_link n = prior (child j)" unfolding none by blast
    with r show "\<exists>d' ns. convertchildren d' M ?lm mdata (parent j) = Inr ns
                 \<and> (\<exists>n\<in>set ns. n_joint n = j \<and> n_link n = prior (child j))"
      by blast
  }
qed

lemma ex_dangling_joint: "ex_joint ''A'' ''B'' \<in> set (joints ex_dangling)"
  by (simp add: ex_dangling_def)

lemma ex_dangling_child: "child (ex_joint ''A'' ''B'') \<notin> lname ` set (links ex_dangling)"
  by (simp add: ex_dangling_def ex_joint_def ex_link_def)

lemma ex_dangling_acyclic: "acyclic (edges ex_dangling)"
proof (rule acyclicI_order
         [where f = "\<lambda>s. if s = ''A'' then 2 else if s = ''B'' then 1 else (0::nat)"])
  fix a b assume "(a, b) \<in> edges ex_dangling"
  then show "(if b = ''A'' then 2 else if b = ''B'' then 1 else (0::nat))
               < (if a = ''A'' then 2 else if a = ''B'' then 1 else 0)"
    by (auto simp: edges_def ex_dangling_def ex_joint_def)
qed

lemma ex_dangling_supported: "supported_types ex_M ex_dangling"
  by (simp add: supported_types_def ex_dangling_def ex_joint_def ex_M_def)

lemma convertchildren_ex_dangling:
  "convertchildren (Suc (Suc (Suc 0))) ex_M (load_links Map.empty (links ex_dangling))
     ex_dangling ''A''
     = Inr [NModel (ex_joint ''A'' ''B'') ''fixed'' None
              [NModel (ex_joint ''B'' ''C'') ''fixed'' (Some (ex_link ''C'')) []]]"
  by (simp add: ex_dangling_def ex_joint_def ex_M_def ex_link_def convertjointtype_def)

lemma convertchildren_ex_dangling_stale:
  "convertchildren (Suc (Suc (Suc 0))) ex_M (load_links ex_stale (links ex_dangling))
     ex_dangling ''A''
     = Inr [NModel (ex_joint ''A'' ''B'') ''fixed'' (Some (ex_link ''B''))
              [NModel (ex_joint ''B'' ''C'') ''fixed'' (Some (ex_link ''C'')) []]]"
  by (simp add: ex_dangling_def ex_joint_def ex_M_def ex_link_def convertjointtype_def
        ex_stale_def)

theorem convertchildren_missing_link_witness:
  "ex_joint ''A'' ''B'' \<in> set (joints ex_dangling)
   \<and> child (ex_joint ''A'' ''B'') \<notin> lname ` set (links ex_dangling)
   \<and> acyclic (edges ex_dangling) \<and> supported_types ex_M ex_dangling
   \<and> convertchildren (Suc (Suc (Suc 0))) ex_M (load_links Map.empty (links ex_dangling))
        ex_dangling (parent (ex_joint ''A'' ''B''))
       = Inr [NModel (ex_joint ''A'' ''B'') ''fixed'' None
                [NModel (ex_joint ''B'' ''C'') ''fixed'' (Some (ex_link ''C'')) []]]
   \<and> (\<exists>n\<in>set [NModel (ex_joint ''A'' ''B'') ''fixed'' None
                   [NModel (ex_joint ''B'' ''C'') ''fixed'' (Some (ex_link ''C'')) []]].
          n_joint n = ex_joint ''A'' ''B'' \<and> n_link n = None
          \<and> (\<exists>d'. Suc (Suc (Suc 0)) = Suc d'
                \<and> convertchildren d' ex_M (load_links Map.empty (links ex_dangling)) ex_dangling
                     (child (ex_joint ''A'' ''B''))
                    = Inr (n_children n)))
   \<and> convertchildren (Suc (Suc (Suc 0))) ex_M (load_links ex_stale (links ex_dangling))
        ex_dangling (parent (ex_joint ''A'' ''B''))
       = Inr [NModel (ex_joint ''A'' ''B'') ''fixed'' (Some (ex_link ''B''))
                [NModel (ex_joint ''B'' ''C'') ''fixed'' (Some (ex_link ''C'')) []]]
   \<and> (\<exists>n\<in>set [NModel (ex_joint ''A'' ''B'') ''fixed'' (Some (ex_link ''B''))
                   [NModel (ex_joint ''B'' ''C'') ''fixed'' (Some (ex_link ''C'')) []]].
          n_joint n = ex_joint ''A'' ''B'' \<and> n_link n = ex_stale ''B'')"
proof -
  have p: "parent (ex_joint ''A'' ''B'') = ''A''" and c: "child (ex_joint ''A'' ''B'') = ''B''"
    by (simp_all add: ex_joint_def)
  have r: "convertchildren (Suc (Suc (Suc 0))) ex_M (load_links Map.empty (links ex_dangling))
        ex_dangling (parent (ex_joint ''A'' ''B''))
       = Inr [NModel (ex_joint ''A'' ''B'') ''fixed'' None
                [NModel (ex_joint ''B'' ''C'') ''fixed'' (Some (ex_link ''C'')) []]]"
    unfolding p by (rule convertchildren_ex_dangling)
  have rs: "convertchildren (Suc (Suc (Suc 0))) ex_M (load_links ex_stale (links ex_dangling))
        ex_dangling (parent (ex_joint ''A'' ''B''))
       = Inr [NModel (ex_joint ''A'' ''B'') ''fixed'' (Some (ex_link ''B''))
                [NModel (ex_joint ''B'' ''C'') ''fixed'' (Some (ex_link ''C'')) []]]"
    unfolding p by (rule convertchildren_ex_dangling_stale)
  from convertchildren_missing_link [OF ex_dangling_joint ex_dangling_child,
         where d = "Suc (Suc (Suc 0))" and M = ex_M and prior = Map.empty
           and nodes = "[NModel (ex_joint ''A'' ''B'') ''fixed'' None
                [NModel (ex_joint ''B'' ''C'') ''fixed'' (Some (ex_link ''C'')) []]]",
         THEN conjunct2, THEN conjunct1, THEN mp, OF r]
  have n1: "\<exists>n\<in>set [NModel (ex_joint ''A'' ''B'') ''fixed'' None
                   [NModel (ex_joint ''B'' ''C'') ''fixed'' (Some (ex_link ''C'')) []]].
          n_joint n = ex_joint ''A'' ''B'' \<and> n_link n = None
          \<and> (\<exists>d'. Suc (Suc (Suc 0)) = Suc d'
                \<and> convertchildren d' ex_M (load_links Map.empty (links ex_dangling)) ex_dangling
                     (child (ex_joint ''A'' ''B''))
                    = Inr (n_children n))"
    by simp
  from convertchildren_missing_link [OF ex_dangling_joint ex_dangling_child,
         where d = "Suc (Suc (Suc 0))" and M = ex_M and prior = ex_stale
           and nodes = "[NModel (ex_joint ''A'' ''B'') ''fixed'' (Some (ex_link ''B''))
                [NModel (ex_joint ''B'' ''C'') ''fixed'' (Some (ex_link ''C'')) []]]",
         THEN conjunct2, THEN conjunct1, THEN mp, OF rs]
  have n2: "\<exists>n\<in>set [NModel (ex_joint ''A'' ''B'') ''fixed'' (Some (ex_link ''B''))
                   [NModel (ex_joint ''B'' ''C'') ''fixed'' (Some (ex_link ''C'')) []]].
          n_joint n = ex_joint ''A'' ''B'' \<and> n_link n = ex_stale ''B''"
    unfolding c by blast
  from ex_dangling_joint ex_dangling_child ex_dangling_acyclic ex_dangling_supported r n1 rs n2
  show ?thesis by (intro conjI)
qed

text \<open>
  C5 as stated fails: for the joints A\<rightarrow>B and B\<rightarrow>C of a body whose links are A and C, the
  tree build of a fresh writer returns the node of A\<rightarrow>B without a link record, and below
  it the node of B\<rightarrow>C with the link C.
\<close>

theorem convertchildren_missing_link_counterexample:
  "child (ex_joint ''A'' ''B'') = ''B'' \<and> map lname (links ex_dangling) = [''A'', ''C'']
   \<and> convertchildren 1000 ex_M (load_links (linkmap VRMLWriter_init) (links ex_dangling))
        ex_dangling ''A''
       = Inr [NModel (ex_joint ''A'' ''B'') ''fixed'' None
                [NModel (ex_joint ''B'' ''C'') ''fixed'' (Some (ex_link ''C'')) []]]
   \<and> convertchildren 1000 ex_M (load_links (linkmap VRMLWriter_init) (links ex_dangling))
        ex_dangling ''A''
       \<noteq> Inl StructuralError"
proof -
  have "Suc (Suc (Suc 0)) + 997 = 1000" by simp
  with convertchildren_mono [OF convertchildren_ex_dangling, of 997]
  have "convertchildren 1000 ex_M (load_links Map.empty (links ex_dangling)) ex_dangling ''A''
       = Inr [NModel (ex_joint ''A'' ''B'') ''fixed'' None
                [NModel (ex_joint ''B'' ''C'') ''fixed'' (Some (ex_link ''C'')) []]]"
    by (simp only:)
  then have "convertchildren 1000 ex_M (load_links (linkmap VRMLWriter_init) (links ex_dangling))
        ex_dangling ''A''
       = Inr [NModel (ex_joint ''A'' ''B'') ''fixed'' None
                [NModel (ex_joint ''B'' ''C'') ''fixed'' (Some (ex_link ''C'')) []]]"
    by (simp add: VRMLWriter_init_def)
  moreover have "child (ex_joint ''A'' ''B'') = ''B''"
    "map lname (links ex_dangling) = [''A'', ''C'']"
    by (simp_all add: ex_joint_def ex_dangling_def ex_link_def)
  ultimately show ?thesis by simp
qed

subsection \<open>The extra joints of a closed-link model\<close>

lemma for_fold_invariant:
  assumes "for_fold f xs s = Inr s'" and "I s"
    and "\<And>x t t'. x \<in> set xs \<Longrightarrow> f x t = Inr t' \<Longrightarrow> I t \<Longrightarrow> I t'"
  shows "I s'"
  using assms
proof (induction xs arbitrary: s)
  case Nil
  then show ?case by simp
next
  case (Cons x xs)
  from Cons.prems(1) obtain t where t: "f x s = Inr t" and r: "for_fold f xs t = Inr s'"
    by (auto split: sum.splits)
  from Cons.prems(3) [of x s t] t Cons.prems(2) have it: "I t" by simp
  show ?case
  proof (rule Cons.IH [OF r it])
    fix y u u' assume "y \<in> set xs" and "f y u = Inr u'" and "I u"
    then show "I u'" using Cons.prems(3) [of y u u'] by simp
  qed
qed

lemma for_fold_readChild_extrajoints:
  assumes IH: "\<And>r p ci r'. readChild d M qaa r p ci = Inr r'
                 \<Longrightarrow> hrpextrajoints r' = hrpextrajoints r"
    and f: "for_fold
           (\<lambda>c s. case py_index (hrplinks s) c of
                     Inl e \<Rightarrow> Inl e
                   | Inr ch \<Rightarrow> readChild d M qaa s ci ch)
           cs r2 = Inr r'"
  shows "hrpextrajoints r' = hrpextrajoints r2"
proof (rule for_fold_invariant [OF f, where I = "\<lambda>s. hrpextrajoints s = hrpextrajoints r2"])
  show "hrpextrajoints r2 = hrpextrajoints r2" ..
next
  fix x t t'
  assume a: "(case py_index (hrplinks t) x of
                Inl e \<Rightarrow> Inl e
              | Inr ch \<Rightarrow> readChild d M qaa t ci ch) = Inr t'"
    and t: "hrpextrajoints t = hrpextrajoints r2"
  from a obtain ch where "readChild d M qaa t ci ch = Inr t'"
    by (auto split: sum.splits)
  from IH [OF this] t show "hrpextrajoints t' = hrpextrajoints r2" by simp
qed

lemma readChild_Suc_Inr:
  assumes "readChild (Suc d) M qaa r p ci = Inr r'"
  shows "\<exists>lm jm. for_fold
           (\<lambda>c s. case py_index (hrplinks s) c of
                     Inl e \<Rightarrow> Inl e
                   | Inr ch \<Rightarrow> readChild d M qaa s ci ch)
           (childIndices ci)
           (r\<lparr>r_links := r_links r @ [lm], r_joints := r_joints r @ [jm]\<rparr>) = Inr r'"
proof -
  from assms obtain lm where lm: "readLink M r ci = Inr lm"
    by (cases "readLink M r ci") simp_all
  from assms lm obtain jt where
    jt: "(if hrp_jointType ci = ''fixed'' then Inr (J_FIXED M)
          else if hrp_jointType ci = ''rotate'' then Inr (J_REVOLUTE M)
          else if hrp_jointType ci = ''slide'' then Inr (J_PRISMATIC M)
          else Inl (UnsupportedJointType (hrp_jointType ci))) = Inr jt"
    by (cases "(if hrp_jointType ci = ''fixed'' then Inr (J_FIXED M)
          else if hrp_jointType ci = ''rotate'' then Inr (J_REVOLUTE M)
          else if hrp_jointType ci = ''slide'' then Inr (J_PRISMATIC M)
          else Inl (UnsupportedJointType (hrp_jointType ci))) :: error + string")
       (simp_all add: Let_def)
  from assms lm jt obtain angle where an: "py_index (rotation ci) 3 = Inr angle"
    by (cases "py_index (rotation ci) 3") (simp_all add: Let_def)
  from assms show ?thesis
    unfolding readChild.simps lm jt an Let_def sum.case
    by (intro exI [of _ lm] exI) simp
qed

lemma readChild_extrajoints:
  "readChild d M qaa r p ci = Inr r' \<Longrightarrow> hrpextrajoints r' = hrpextrajoints r"
proof (induction d arbitrary: r p ci r')
  case 0
  then show ?case by simp
next
  case (Suc d)
  from readChild_Suc_Inr [OF Suc.prems] obtain lm jm where
    "for_fold
           (\<lambda>c s. case py_index (hrplinks s) c of
                     Inl e \<Rightarrow> Inl e
                   | Inr ch \<Rightarrow> readChild d M qaa s ci ch)
           (childIndices ci)
           (r\<lparr>r_links := r_links r @ [lm], r_joints := r_joints r @ [jm]\<rparr>) = Inr r'"
    by blast
  from for_fold_readChild_extrajoints [OF Suc.IH this] show ?case by simp
qed

lemma read_Inr:
  assumes "VRMLReader_read d M qaa b = Inr bm"
  shows "\<exists>rootinfo r0 r1. hrpextrajoints r0 = extraJoints b
           \<and> for_fold
              (\<lambda>c s. case py_index (hrplinks s) c of
                        Inl e \<Rightarrow> Inl e
                      | Inr ch \<Rightarrow> readChild d M qaa s rootinfo ch)
              (childIndices rootinfo) r0 = Inr r1
           \<and> joints bm = r_joints r1 @ map (read_extrajoint M) (hrpextrajoints r1)"
proof -
  define r where "r = \<lparr>r_joints = [], r_links = [],
               r_materials = read_materials 0 (hrp_materials b),
               hrplinks = hrp_links b, hrpshapes = hrp_shapes b,
               hrpapperances = hrp_appearances b, hrpmaterials = hrp_materials b,
               hrpextrajoints = extraJoints b\<rparr>"
  note rd = assms [unfolded VRMLReader_read_def Let_def, folded r_def]
  from rd obtain rootinfo where ri: "py_index (hrplinks r) 0 = Inr rootinfo"
    by (cases "py_index (hrplinks r) 0") simp_all
  from rd ri obtain lm where lm: "readLink M r rootinfo = Inr lm"
    by (cases "readLink M r rootinfo") simp_all
  define r0 where "r0 = r\<lparr>r_links := r_links r @ [lm]\<rparr>"
  note rd2 = rd [unfolded ri lm sum.case, folded r0_def]
  from rd2 obtain r1 where r1: "for_fold
              (\<lambda>c s. case py_index (hrplinks s) c of
                        Inl e \<Rightarrow> Inl e
                      | Inr ch \<Rightarrow> readChild d M qaa s rootinfo ch)
              (childIndices rootinfo) r0 = Inr r1"
    by (cases "for_fold
              (\<lambda>c s. case py_index (hrplinks s) c of
                        Inl e \<Rightarrow> Inl e
                      | Inr ch \<Rightarrow> readChild d M qaa s rootinfo ch)
              (childIndices rootinfo) r0") simp_all
  from rd2 [unfolded r1 sum.case]
  have "joints bm = r_joints r1 @ map (read_extrajoint M) (hrpextrajoints r1)" by auto
  moreover have "hrpextrajoints r0 = extraJoints b" by (simp add: r0_def r_def)
  ultimately show ?thesis using r1 by blast
qed

lemma read_joints:
  assumes "VRMLReader_read d M qaa b = Inr bm"
  shows "\<exists>js. joints bm = js @ map (read_extrajoint M) (extraJoints b)"
proof -
  from read_Inr [OF assms] obtain rootinfo r0 r1 where
    r0: "hrpextrajoints r0 = extraJoints b"
    and f: "for_fold
              (\<lambda>c s. case py_index (hrplinks s) c of
                        Inl e \<Rightarrow> Inl e
                      | Inr ch \<Rightarrow> readChild d M qaa s rootinfo ch)
              (childIndices rootinfo) r0 = Inr r1"
    and j: "joints bm = r_joints r1 @ map (read_extrajoint M) (hrpextrajoints r1)"
    by blast
  from for_fold_readChild_extrajoints [OF readChild_extrajoints f] r0
  have "hrpextrajoints r1 = extraJoints b" by simp
  with j have "joints bm = r_joints r1 @ map (read_extrajoint M) (extraJoints b)" by simp
  then show ?thesis ..
qed

lemma read_extrajoint_parent: "parent (read_extrajoint M e) = fst (ej_link e)"
  by (simp add: read_extrajoint_def)

lemma read_ex_closed: "VRMLReader_read (Suc d) ex_M ex_qaa ex_closed = Inr ex_closed_body"
  by (simp add: VRMLReader_read_def ex_closed_def ex_linkinfo_def ex_M_def ex_qaa_def
        ex_closed_body_def ex_link_def ex_tree_joint_def ex_loop_joint_def readLink_def
        read_extrajoint_def py_index_def Let_def)

lemma convertchildren_ex_closed_L1:
  "convertchildren (Suc (Suc 0)) ex_M (load_links Map.empty (links ex_closed_body))
     ex_closed_body ''L1''
   = Inr [NModel ex_loop_joint ''fixed'' (Some (ex_link ''L2'')) []]"
  by (simp add: ex_closed_body_def ex_tree_joint_def ex_loop_joint_def ex_link_def ex_M_def
        convertjointtype_def)

text \<open>
  C7 (as amended). For every body read from a closed-link model, the extra (closed-loop)
  joints are in the one joint list of the body, after the joints of the tree; there is no
  separate list. \<open>findchildren\<close> returns an extra joint among the children of its first
  link like any other joint, and when the tree build returns for that link, the extra joint
  is the joint of one of the nodes it built: the build follows it as a tree edge.
\<close>

theorem read_extra_joints_in_joint_list:
  assumes "VRMLReader_read d M qaa b = Inr bm"
  shows "(\<exists>js. joints bm = js @ map (read_extrajoint M) (extraJoints b))
     \<and> (\<forall>e\<in>set (extraJoints b).
           read_extrajoint M e \<in> set (findchildren bm (fst (ej_link e))))
     \<and> (\<forall>e\<in>set (extraJoints b).
           convertchildren d' M' lm bm (fst (ej_link e)) = Inr nodes
           \<longrightarrow> read_extrajoint M e \<in> n_joint ` set nodes)"
proof -
  from read_joints [OF assms] obtain js
    where js: "joints bm = js @ map (read_extrajoint M) (extraJoints b)" ..
  have mem: "read_extrajoint M e \<in> set (joints bm)" if "e \<in> set (extraJoints b)" for e
    using that js by simp
  have a: "\<exists>js. joints bm = js @ map (read_extrajoint M) (extraJoints b)"
    using js ..
  have b: "\<forall>e\<in>set (extraJoints b).
           read_extrajoint M e \<in> set (findchildren bm (fst (ej_link e)))"
    using mem by (simp add: read_extrajoint_parent)
  have c: "\<forall>e\<in>set (extraJoints b).
           convertchildren d' M' lm bm (fst (ej_link e)) = Inr nodes
           \<longrightarrow> read_extrajoint M e \<in> n_joint ` set nodes"
  proof (intro ballI impI)
    fix e assume e: "e \<in> set (extraJoints b)"
      and r: "convertchildren d' M' lm bm (fst (ej_link e)) = Inr nodes"
    from convertchildren_Inr_node [OF r mem [OF e] read_extrajoint_parent]
    obtain n where "n \<in> set nodes" and "n_joint n = read_extrajoint M e" by blast
    then show "read_extrajoint M e \<in> n_joint ` set nodes" by force
  qed
  from a b c show ?thesis by (intro conjI)
qed

lemma ex_closed_extra:
  "extraJoints ex_closed = [\<lparr>ej_name = ''loop'', ej_link = (''L1'', ''L2''), ej_axis = [0, 0, 1]\<rparr>]"
  by (simp add: ex_closed_def)

lemma ex_closed_loop:
  "read_extrajoint ex_M \<lparr>ej_name = ''loop'', ej_link = (''L1'', ''L2''), ej_axis = [0, 0, 1]\<rparr>
     = ex_loop_joint"
  by (simp add: read_extrajoint_def ex_M_def ex_loop_joint_def)

theorem read_extra_joints_in_joint_list_witness:
  "VRMLReader_read (Suc 999) ex_M ex_qaa ex_closed = Inr ex_closed_body
   \<and> extraJoints ex_closed
       = [\<lparr>ej_name = ''loop'', ej_link = (''L1'', ''L2''), ej_axis = [0, 0, 1]\<rparr>]
   \<and> convertchildren (Suc (Suc 0)) ex_M (load_links Map.empty (links ex_closed_body))
        ex_closed_body ''L1''
       = Inr [NModel ex_loop_joint ''fixed'' (Some (ex_link ''L2'')) []]
   \<and> ex_loop_joint \<in> set (findchildren ex_closed_body ''L1'')
   \<and> ex_loop_joint \<in> n_joint ` set [NModel ex_loop_joint ''fixed'' (Some (ex_link ''L2'')) []]"
proof -
  note t = read_extra_joints_in_joint_list [OF read_ex_closed [of 999],
             where d' = "Suc (Suc 0)" and M' = ex_M
               and lm = "load_links Map.empty (links ex_closed_body)"
               and nodes = "[NModel ex_loop_joint ''fixed'' (Some (ex_link ''L2'')) []]"]
  have e: "\<lparr>ej_name = ''loop'', ej_link = (''L1'', ''L2''), ej_axis = [0, 0, 1]\<rparr>
             \<in> set (extraJoints ex_closed)"
    by (simp add: ex_closed_extra)
  from t [THEN conjunct2, THEN conjunct1, THEN bspec, OF e]
  have f: "ex_loop_joint \<in> set (findchildren ex_closed_body ''L1'')"
    unfolding ex_closed_loop by simp
  have r: "convertchildren (Suc (Suc 0)) ex_M (load_links Map.empty (links ex_closed_body))
        ex_closed_body
        (fst (ej_link \<lparr>ej_name = ''loop'', ej_link = (''L1'', ''L2''), ej_axis = [0, 0, 1]\<rparr>))
       = Inr [NModel ex_loop_joint ''fixed'' (Some (ex_link ''L2'')) []]"
    using convertchildren_ex_closed_L1 by simp
  from t [THEN conjunct2, THEN conjunct2, THEN bspec, OF e, THEN mp, OF r]
  have n: "ex_loop_joint \<in> n_joint ` set [NModel ex_loop_joint ''fixed'' (Some (ex_link ''L2'')) []]"
    unfolding ex_closed_loop .
  from read_ex_closed [of 999] ex_closed_extra convertchildren_ex_closed_L1 f n
  show ?thesis by (intro conjI)
qed

text \<open>
  C7 as stated fails: for the links L0, L1, L2 with the extra joint 'loop' from L1 to L2,
  the joint list of the body that the reader returns ends with 'loop', and the tree build
  from L1 returns the node of 'loop' with the link L2.
\<close>

theorem read_extra_joints_counterexample:
  "VRMLReader_read 1000 ex_M ex_qaa ex_closed = Inr ex_closed_body
   \<and> map ej_name (extraJoints ex_closed) = [''loop'']
   \<and> map jname (joints ex_closed_body) = [''L0L1'', ''L0L2'', ''loop'']
   \<and> map jname (findchildren ex_closed_body ''L1'') = [''loop'']
   \<and> convertchildren 1000 ex_M (load_links Map.empty (links ex_closed_body)) ex_closed_body ''L1''
       = Inr [NModel ex_loop_joint ''fixed'' (Some (ex_link ''L2'')) []]"
proof (intro conjI)
  have "Suc 999 = 1000" by simp
  with read_ex_closed [of 999]
  show "VRMLReader_read 1000 ex_M ex_qaa ex_closed = Inr ex_closed_body" by (simp only:)
  show "map ej_name (extraJoints ex_closed) = [''loop'']" by (simp add: ex_closed_def)
  show "map jname (joints ex_closed_body) = [''L0L1'', ''L0L2'', ''loop'']"
    by (simp add: ex_closed_body_def ex_tree_joint_def ex_loop_joint_def)
  show "map jname (findchildren ex_closed_body ''L1'') = [''loop'']"
    by (simp add: ex_closed_body_def ex_tree_joint_def ex_loop_joint_def)
  have "Suc (Suc 0) + 998 = 1000" by simp
  with convertchildren_mono [OF convertchildren_ex_closed_L1, of 998]
  show "convertchildren 1000 ex_M (load_links Map.empty (links ex_closed_body)) ex_closed_body ''L1''
       = Inr [NModel ex_loop_joint ''fixed'' (Some (ex_link ''L2'')) []]"
    by (simp only:)
qed

end
